theory Spec2Isabelle
  imports Complex_Main
begin

section \<open>Python values, exceptions and text\<close>

text \<open>
  The two scripts \<^verbatim>\<open>train.py\<close> and \<^verbatim>\<open>test.py\<close> sequence calls into PyTorch,
  accelerate, torchmetrics and the standard library. The embedding keeps every call of
  the scripts as an event of a trace, lets every call raise, and keeps the values the
  scripts compute themselves (sums, averages, the best PSNR, the log lines) as HOL
  values. Python floats are the type variable \<open>'f\<close>: what a float is, and how floats
  are added, divided, compared, made from an integer and printed, is a parameter of the
  model, so rounding, infinities and NaN are whatever the instance makes them.
\<close>

datatype exn = ZeroDivisionError | IndexError | FrameworkError string

text \<open>\<^verbatim>\<open>best_psnr\<close> starts as the integer \<^verbatim>\<open>0\<close> and later holds floats; the two print
  differently.\<close>

datatype 'f pynum = PyInt int | PyFloat 'f

definition digit_char :: "nat \<Rightarrow> char" where
  "digit_char d = char_of (48 + d)"

fun str_nat :: "nat \<Rightarrow> string" where
  "str_nat n = (if n < 10 then [digit_char n] else str_nat (n div 10) @ [digit_char (n mod 10)])"

declare str_nat.simps [simp del]

text \<open>\<^verbatim>\<open>str(i)\<close> of a Python integer.\<close>

definition str_int :: "int \<Rightarrow> string" where
  "str_int i = (if i < 0 then CHR ''-'' # str_nat (nat (- i)) else str_nat (nat i))"

definition hex_digit :: "nat \<Rightarrow> char" where
  "hex_digit d = (if d < 10 then char_of (48 + d) else char_of (87 + d))"

text \<open>
  \<^verbatim>\<open>json.dumps(s)\<close> of a string, with the default \<^verbatim>\<open>ensure_ascii=True\<close>: the quote and
  the backslash are escaped, the five named control characters get their short escape,
  every other character outside the printable ASCII range becomes \<^verbatim>\<open>\uXXXX\<close>. A
  \<^typ>\<open>char\<close> is a code point below 256.
\<close>

definition json_escape :: "char \<Rightarrow> string" where
  "json_escape c =
     (let n = (of_char c :: nat) in
      if n = 0x22 then [CHR 0x5C, CHR 0x22]
      else if n = 0x5C then [CHR 0x5C, CHR 0x5C]
      else if n = 0x0A then [CHR 0x5C, CHR ''n'']
      else if n = 0x0D then [CHR 0x5C, CHR ''r'']
      else if n = 0x09 then [CHR 0x5C, CHR ''t'']
      else if n = 0x08 then [CHR 0x5C, CHR ''b'']
      else if n = 0x0C then [CHR 0x5C, CHR ''f'']
      else if 0x20 \<le> n \<and> n \<le> 0x7E then [c]
      else [CHR 0x5C, CHR ''u'', hex_digit (n div 4096), hex_digit (n div 256 mod 16),
            hex_digit (n div 16 mod 16), hex_digit (n mod 16)])"

definition json_dumps :: "string \<Rightarrow> string" where
  "json_dumps s = CHR 0x22 # concat (map json_escape s) @ [CHR 0x22]"

text \<open>\<^verbatim>\<open>os.path.join(a, b)\<close> on a POSIX system.\<close>

definition path_join :: "string \<Rightarrow> string \<Rightarrow> string" where
  "path_join a b =
     (if b \<noteq> [] \<and> hd b = CHR ''/'' then b
      else if a = [] \<or> last a = CHR ''/'' then a @ b
      else a @ ''/'' @ b)"

section \<open>The configuration\<close>

text \<open>The fields of \<^verbatim>\<open>config.yml\<close> that the two scripts read (\<^verbatim>\<open>opt.OPTIM.SEED\<close> is
  \<open>OPTIM_SEED\<close>, and so on).\<close>

record config =
  OPTIM_SEED :: int
  OPTIM_WANDB :: bool
  OPTIM_BATCH_SIZE :: int
  OPTIM_LR_INITIAL :: real
  OPTIM_LR_MIN :: real
  OPTIM_NUM_EPOCHS :: int
  TRAINING_SAVE_DIR :: string
  TRAINING_TRAIN_DIR :: string
  TRAINING_VAL_DIR :: string
  TRAINING_ORI :: bool
  TRAINING_PS_W :: int
  TRAINING_PS_H :: int
  TRAINING_VAL_AFTER_EVERY :: int
  TRAINING_LOG_FILE :: string
  MODEL_INPUT :: string
  MODEL_TARGET :: string
  MODEL_SESSION :: string
  LOG_LOG_DIR :: string
  TESTING_VAL_DIR :: string
  TESTING_INPUT :: string
  TESTING_TARGET :: string
  TESTING_RESULT_DIR :: string
  TESTING_WEIGHT :: string
  TESTING_LOG_FILE :: string

section \<open>Framework calls as events\<close>

text \<open>A batch of a loader: \<^verbatim>\<open>data[0]\<close>, \<^verbatim>\<open>data[1]\<close> and, for the evaluation set, the
  list of file names \<^verbatim>\<open>data[2]\<close>.\<close>

record 't batch =
  inp :: 't
  tar :: 't
  names :: "string list"

text \<open>The training loss is a tensor expression built by the script from three criterion
  calls; the float literals \<^verbatim>\<open>0.3\<close> and \<^verbatim>\<open>0.7\<close> are the constants 3/10 and 7/10.\<close>

datatype 't loss =
    SmoothL1 't 't
  | SSIM 't 't
  | LPIPS 't 't
  | Const real
  | Add "'t loss" "'t loss"
  | Sub "'t loss" "'t loss"
  | Mul "'t loss" "'t loss"

datatype loader = TrainLoader | TestLoader

datatype 'm ckpt = StateDictOf 'm

datatype ('t, 'm, 'f) event =
    LoadConfig string
  | SeedEverything int
  | NewAccelerator bool
  | MakeDirs string bool
  | AccInitTrackers string "(string \<times> string) list"
  | GetData string string string string bool int int
  | NewDataLoader loader int bool int bool bool
  | NewModel
  | NewSmoothL1Loss
  | NewLPIPS
  | NewAdamW real
  | NewCosineAnnealingLR int real
  | AccPrepare "string list"
  | LoadCheckpoint string
  | ModelTrain
  | ModelEval
  | IterStart loader bool
  | LoaderNext loader
  | Contiguous 't
  | ZeroGrad
  | Forward 't bool bool
  | SmoothL1Call 't 't
  | SSIMCall 't 't
  | LPIPSCall 't 't
  | PSNRCall 't 't
  | UCIQECall 't
  | UIQMCall 't
  | AccBackward "'t loss"
  | OptimizerStep
  | SchedulerStep
  | AccGather 't 't
  | SaveCheckpoint "(string \<times> 'm ckpt) list" int string string
  | SaveImage 't string
  | AccLog "(string \<times> 'f) list" int
  | Print string
  | FileOpen string string
  | FileWrite string string
  | AccEndTraining

text \<open>
  What the frameworks do is a parameter of the model. \<open>fw_raises\<close> decides, from the calls
  made so far and the call being made, whether that call raises, so every pattern of
  failures is covered. \<open>'m\<close> is the state the framework mutates (parameters and buffers of
  the model, gradients, optimizer and scheduler state); \<open>'t\<close> is a tensor; \<open>'f\<close> is a
  Python float, with \<open>fw_float_of_int\<close> the conversion \<^verbatim>\<open>float(i)\<close>, \<open>fw_float_add\<close> the
  float \<^verbatim>\<open>+\<close>, \<open>fw_float_div x n\<close> the float \<^verbatim>\<open>x / n\<close> for an integer \<open>n\<close> that is not zero and
  \<open>fw_float_gt\<close> the float \<^verbatim>\<open>>\<close>.
\<close>

record ('t, 'm, 'f) framework =
  fw_raises :: "('t, 'm, 'f) event list \<Rightarrow> ('t, 'm, 'f) event \<Rightarrow> exn option"
  fw_is_local_main_process :: bool
  fw_train_batches :: "int \<Rightarrow> 't batch list"
  fw_test_batches :: "'t batch list"
  fw_new_model :: 'm
  fw_load_checkpoint :: "string \<Rightarrow> 'm \<Rightarrow> 'm"
  fw_forward :: "bool \<Rightarrow> bool \<Rightarrow> 'm \<Rightarrow> 't \<Rightarrow> 't \<times> 'm"
  fw_zero_grad :: "'m \<Rightarrow> 'm"
  fw_backward :: "'t loss \<Rightarrow> 'm \<Rightarrow> 'm"
  fw_optimizer_step :: "'m \<Rightarrow> 'm"
  fw_scheduler_step :: "'m \<Rightarrow> 'm"
  fw_gather :: "'t \<times> 't \<Rightarrow> 't \<times> 't"
  fw_psnr :: "'t \<Rightarrow> 't \<Rightarrow> 'f"
  fw_ssim :: "'t \<Rightarrow> 't \<Rightarrow> 'f"
  fw_lpips :: "'t \<Rightarrow> 't \<Rightarrow> 'f"
  fw_uciqe :: "'t \<Rightarrow> 'f"
  fw_uiqm :: "'t \<Rightarrow> 'f"
  fw_float_of_int :: "int \<Rightarrow> 'f"
  fw_float_add :: "'f \<Rightarrow> 'f \<Rightarrow> 'f"
  fw_float_div :: "'f \<Rightarrow> int \<Rightarrow> 'f"
  fw_float_gt :: "'f \<Rightarrow> 'f \<Rightarrow> bool"
  fw_format_float :: "'f \<Rightarrow> string"

text \<open>The state a run threads: the calls made, the framework's mutable state, the mode of
  the model (\<^verbatim>\<open>model.train()\<close> / \<^verbatim>\<open>model.eval()\<close>) and the directories that exist.\<close>

record ('t, 'm, 'f) world =
  trace :: "('t, 'm, 'f) event list"
  learner :: 'm
  training :: bool
  dirs :: "string set"

section \<open>Programs: state passing with exceptions\<close>

type_synonym ('a, 'w) prog = "'w \<Rightarrow> (exn + 'a) \<times> 'w"

definition ret :: "'a \<Rightarrow> ('a, 'w) prog" where
  "ret a w = (Inr a, w)"

definition raise :: "exn \<Rightarrow> ('a, 'w) prog" where
  "raise e w = (Inl e, w)"

text \<open>Sequencing: an exception of the first part skips the second. Neither script has a
  \<^verbatim>\<open>try\<close>, so this is the only way an exception is treated.\<close>

definition andthen :: "('a, 'w) prog \<Rightarrow> ('a \<Rightarrow> ('b, 'w) prog) \<Rightarrow> ('b, 'w) prog" where
  "andthen m f w = (case m w of (Inl e, w') \<Rightarrow> (Inl e, w') | (Inr a, w') \<Rightarrow> f a w')"

text \<open>A framework call: the event is recorded; the call raises when the framework says
  so, and otherwise has its effect and returns its value.\<close>

definition act ::
  "('t, 'm, 'f) framework \<Rightarrow> ('t, 'm, 'f) event \<Rightarrow> (('t, 'm, 'f) world \<Rightarrow> 'a \<times> ('t, 'm, 'f) world) \<Rightarrow>
   ('a, ('t, 'm, 'f) world) prog" where
  "act fw ev f w =
     (case fw_raises fw (trace w) ev of
        Some e \<Rightarrow> (Inl e, w\<lparr>trace := trace w @ [ev]\<rparr>)
      | None \<Rightarrow> (case f w of (a, w') \<Rightarrow> (Inr a, w'\<lparr>trace := trace w @ [ev]\<rparr>)))"

definition call :: "('t, 'm, 'f) framework \<Rightarrow> ('t, 'm, 'f) event \<Rightarrow> (unit, ('t, 'm, 'f) world) prog" where
  "call fw ev = act fw ev (\<lambda>w. ((), w))"

definition effect ::
  "('t, 'm, 'f) framework \<Rightarrow> ('t, 'm, 'f) event \<Rightarrow> (('t, 'm, 'f) world \<Rightarrow> ('t, 'm, 'f) world) \<Rightarrow>
   (unit, ('t, 'm, 'f) world) prog" where
  "effect fw ev g = act fw ev (\<lambda>w. ((), g w))"

definition upd_learner :: "('m \<Rightarrow> 'm) \<Rightarrow> ('t, 'm, 'f) world \<Rightarrow> ('t, 'm, 'f) world" where
  "upd_learner g w = w\<lparr>learner := g (learner w)\<rparr>"

text \<open>\<^verbatim>\<open>model(x)\<close>; \<open>grad\<close> is false inside \<^verbatim>\<open>with torch.no_grad()\<close>.\<close>

definition forward :: "('t, 'm, 'f) framework \<Rightarrow> bool \<Rightarrow> 't \<Rightarrow> ('t, ('t, 'm, 'f) world) prog" where
  "forward fw grad x w =
     act fw (Forward x (training w) grad)
       (\<lambda>w. case fw_forward fw (training w) grad (learner w) x of
               (res, m') \<Rightarrow> (res, w\<lparr>learner := m'\<rparr>)) w"

text \<open>\<^verbatim>\<open>for _, data in enumerate(loader)\<close>: the iterator is asked for the next batch before
  each round and once more at the end.\<close>

fun for_each ::
  "('t, 'm, 'f) framework \<Rightarrow> loader \<Rightarrow> 'b list \<Rightarrow> ('b \<Rightarrow> 'a \<Rightarrow> ('a, ('t, 'm, 'f) world) prog) \<Rightarrow> 'a \<Rightarrow>
   ('a, ('t, 'm, 'f) world) prog" where
  "for_each fw l [] body acc = andthen (call fw (LoaderNext l)) (\<lambda>_. ret acc)"
| "for_each fw l (b # bs) body acc =
     andthen (call fw (LoaderNext l)) (\<lambda>_.
     andthen (body b acc) (\<lambda>acc'.
     for_each fw l bs body acc'))"

text \<open>\<^verbatim>\<open>x / n\<close> and \<^verbatim>\<open>a % b\<close> raise on a zero divisor.\<close>

definition py_truediv :: "('t, 'm, 'f) framework \<Rightarrow> 'f \<Rightarrow> int \<Rightarrow> ('f, 'w) prog" where
  "py_truediv fw x n =
     (if n = 0 then raise ZeroDivisionError else ret (fw_float_div fw x n))"

text \<open>\<^verbatim>\<open>x > b\<close> for a float \<open>x\<close> and a number \<open>b\<close>.\<close>

definition py_gt :: "('t, 'm, 'f) framework \<Rightarrow> 'f \<Rightarrow> 'f pynum \<Rightarrow> bool" where
  "py_gt fw x b =
     (case b of PyInt i \<Rightarrow> fw_float_gt fw x (fw_float_of_int fw i)
              | PyFloat y \<Rightarrow> fw_float_gt fw x y)"

definition py_mod :: "int \<Rightarrow> int \<Rightarrow> (int, 'w) prog" where
  "py_mod a b = (if b = 0 then raise ZeroDivisionError else ret (a mod b))"

section \<open>train.py\<close>

subsection \<open>One training batch (lines 82 to 97)\<close>

definition train_loss :: "'t \<Rightarrow> 't \<Rightarrow> 't loss" where
  "train_loss res t =
     Add (Add (SmoothL1 res t) (Mul (Const (3 / 10)) (Sub (Const 1) (SSIM res t))))
         (Mul (Const (7 / 10)) (LPIPS res t))"

definition train_batch :: "('t, 'm, 'f) framework \<Rightarrow> 't batch \<Rightarrow> (unit, ('t, 'm, 'f) world) prog" where
  "train_batch fw b =
     andthen (call fw (Contiguous (inp b))) (\<lambda>_.
     andthen (effect fw ZeroGrad (upd_learner (fw_zero_grad fw))) (\<lambda>_.
     andthen (forward fw True (inp b)) (\<lambda>res.
     andthen (call fw (SmoothL1Call res (tar b))) (\<lambda>_.
     andthen (call fw (SSIMCall res (tar b))) (\<lambda>_.
     andthen (call fw (LPIPSCall res (tar b))) (\<lambda>_.
     andthen (effect fw (AccBackward (train_loss res (tar b)))
                (upd_learner (fw_backward fw (train_loss res (tar b))))) (\<lambda>_.
     effect fw OptimizerStep (upd_learner (fw_optimizer_step fw)))))))))"

subsection \<open>The validation pass (lines 103 to 154)\<close>

record 'f metrics =
  psnr :: 'f
  ssim :: 'f
  lpips :: 'f
  uciqe :: 'f
  uiqm :: 'f

text \<open>The five accumulators start as the integer \<^verbatim>\<open>0\<close>, which the first \<^verbatim>\<open>+=\<close> of a float
  converts to a float.\<close>

definition zero_metrics :: "('t, 'm, 'f) framework \<Rightarrow> 'f metrics" where
  "zero_metrics fw =
     \<lparr>psnr = fw_float_of_int fw 0, ssim = fw_float_of_int fw 0, lpips = fw_float_of_int fw 0,
      uciqe = fw_float_of_int fw 0, uiqm = fw_float_of_int fw 0\<rparr>"

text \<open>The five \<^verbatim>\<open>+=\<close> of one batch, on the result \<open>r\<close> and the target \<open>t\<close>.\<close>

definition add_metrics :: "('t, 'm, 'f) framework \<Rightarrow> 't \<Rightarrow> 't \<Rightarrow> 'f metrics \<Rightarrow> 'f metrics" where
  "add_metrics fw r t acc =
     \<lparr>psnr = fw_float_add fw (psnr acc) (fw_psnr fw r t),
      ssim = fw_float_add fw (ssim acc) (fw_ssim fw r t),
      lpips = fw_float_add fw (lpips acc) (fw_lpips fw r t),
      uciqe = fw_float_add fw (uciqe acc) (fw_uciqe fw r),
      uiqm = fw_float_add fw (uiqm acc) (fw_uiqm fw r)\<rparr>"

definition measure_batch ::
  "('t, 'm, 'f) framework \<Rightarrow> 't \<Rightarrow> 't \<Rightarrow> 'f metrics \<Rightarrow> ('f metrics, ('t, 'm, 'f) world) prog" where
  "measure_batch fw r t acc =
     andthen (call fw (PSNRCall r t)) (\<lambda>_.
     andthen (call fw (SSIMCall r t)) (\<lambda>_.
     andthen (call fw (LPIPSCall r t)) (\<lambda>_.
     andthen (call fw (UCIQECall r)) (\<lambda>_.
     andthen (call fw (UIQMCall r)) (\<lambda>_.
     ret (add_metrics fw r t acc))))))"

definition val_batch ::
  "('t, 'm, 'f) framework \<Rightarrow> 't batch \<Rightarrow> 'f metrics \<Rightarrow> ('f metrics, ('t, 'm, 'f) world) prog" where
  "val_batch fw b acc =
     andthen (call fw (Contiguous (inp b))) (\<lambda>_.
     andthen (forward fw False (inp b)) (\<lambda>res.
     andthen (call fw (AccGather res (tar b))) (\<lambda>_.
     measure_batch fw (fst (fw_gather fw (res, tar b))) (snd (fw_gather fw (res, tar b))) acc)))"

text \<open>The five \<^verbatim>\<open>/= size\<close>.\<close>

definition average :: "('t, 'm, 'f) framework \<Rightarrow> 'f metrics \<Rightarrow> int \<Rightarrow> ('f metrics, 'w) prog" where
  "average fw acc sz =
     andthen (py_truediv fw (psnr acc) sz) (\<lambda>p.
     andthen (py_truediv fw (ssim acc) sz) (\<lambda>s.
     andthen (py_truediv fw (lpips acc) sz) (\<lambda>l.
     andthen (py_truediv fw (uciqe acc) sz) (\<lambda>c.
     andthen (py_truediv fw (uiqm acc) sz) (\<lambda>q.
     ret \<lparr>psnr = p, ssim = s, lpips = l, uciqe = c, uiqm = q\<rparr>)))))"

definition format_num :: "('t, 'm, 'f) framework \<Rightarrow> 'f pynum \<Rightarrow> string" where
  "format_num fw n = (case n of PyInt i \<Rightarrow> str_int i | PyFloat r \<Rightarrow> fw_format_float fw r)"

definition train_log_stats ::
  "('t, 'm, 'f) framework \<Rightarrow> int \<Rightarrow> 'f metrics \<Rightarrow> 'f pynum \<Rightarrow> int \<Rightarrow> string" where
  "train_log_stats fw epoch avg best_psnr best_epoch =
     ''epoch: '' @ str_int epoch @ '', PSNR: '' @ fw_format_float fw (psnr avg) @
     '', SSIM: '' @ fw_format_float fw (ssim avg) @
     '', LPIPS: '' @ fw_format_float fw (lpips avg) @
     '', UCIQE: '' @ fw_format_float fw (uciqe avg) @
     '', UIQM: '' @ fw_format_float fw (uiqm avg) @
     '', best PSNR: '' @ format_num fw best_psnr @
     '', best epoch: '' @ str_int best_epoch"

definition metrics_dict :: "'f metrics \<Rightarrow> (string \<times> 'f) list" where
  "metrics_dict avg =
     [(''PSNR'', psnr avg), (''SSIM'', ssim avg), (''LPIPS'', lpips avg),
      (''UCIQE'', uciqe avg), (''UIQM'', uiqm avg)]"

text \<open>Lines 132 to 138: a new best PSNR is recorded and the model saved.\<close>

definition keep_best ::
  "('t, 'm, 'f) framework \<Rightarrow> config \<Rightarrow> int \<Rightarrow> 'f metrics \<Rightarrow> 'f pynum \<times> int \<Rightarrow>
   ('f pynum \<times> int, ('t, 'm, 'f) world) prog" where
  "keep_best fw opt epoch avg best =
     (if py_gt fw (psnr avg) (fst best)
      then (\<lambda>w. andthen
              (call fw (SaveCheckpoint [(''state_dict'', StateDictOf (learner w))] epoch
                 (MODEL_SESSION opt) (TRAINING_SAVE_DIR opt)))
              (\<lambda>_. ret (PyFloat (psnr avg), epoch)) w)
      else ret best)"

text \<open>Lines 148 to 154, on the local main process only.\<close>

definition append_line ::
  "('t, 'm, 'f) framework \<Rightarrow> string \<Rightarrow> string list \<Rightarrow> (unit, ('t, 'm, 'f) world) prog" where
  "append_line fw path lines =
     andthen (call fw (FileOpen path ''a'')) (\<lambda>_.
     foldr (\<lambda>s rest. andthen (call fw (FileWrite path (json_dumps s @ [CHR 0x0A]))) (\<lambda>_. rest))
       lines (ret ()))"

definition report ::
  "('t, 'm, 'f) framework \<Rightarrow> config \<Rightarrow> string \<Rightarrow> (unit, ('t, 'm, 'f) world) prog" where
  "report fw opt log_stats =
     (if fw_is_local_main_process fw
      then andthen (call fw (Print log_stats)) (\<lambda>_.
           append_line fw (path_join (LOG_LOG_DIR opt) (TRAINING_LOG_FILE opt)) [log_stats])
      else ret ())"

definition validate ::
  "('t, 'm, 'f) framework \<Rightarrow> config \<Rightarrow> int \<Rightarrow> int \<Rightarrow> 'f pynum \<times> int \<Rightarrow>
   ('f pynum \<times> int, ('t, 'm, 'f) world) prog" where
  "validate fw opt sz epoch best =
     andthen (effect fw ModelEval (\<lambda>w. w\<lparr>training := False\<rparr>)) (\<lambda>_.
     andthen (call fw (IterStart TestLoader (\<not> fw_is_local_main_process fw))) (\<lambda>_.
     andthen (for_each fw TestLoader (fw_test_batches fw) (val_batch fw) (zero_metrics fw)) (\<lambda>totals.
     andthen (average fw totals sz) (\<lambda>avg.
     andthen (keep_best fw opt epoch avg best) (\<lambda>best'.
     andthen (call fw (AccLog (metrics_dict avg) epoch)) (\<lambda>_.
     andthen (report fw opt (train_log_stats fw epoch avg (fst best') (snd best'))) (\<lambda>_.
     ret best')))))))"

subsection \<open>One epoch and the whole run\<close>

definition epoch_body ::
  "('t, 'm, 'f) framework \<Rightarrow> config \<Rightarrow> int \<Rightarrow> int \<Rightarrow> 'f pynum \<times> int \<Rightarrow>
   ('f pynum \<times> int, ('t, 'm, 'f) world) prog" where
  "epoch_body fw opt sz epoch best =
     andthen (effect fw ModelTrain (\<lambda>w. w\<lparr>training := True\<rparr>)) (\<lambda>_.
     andthen (call fw (IterStart TrainLoader (\<not> fw_is_local_main_process fw))) (\<lambda>_.
     andthen (for_each fw TrainLoader (fw_train_batches fw epoch) (\<lambda>b _. train_batch fw b) ()) (\<lambda>_.
     andthen (effect fw SchedulerStep (upd_learner (fw_scheduler_step fw))) (\<lambda>_.
     andthen (py_mod epoch (TRAINING_VAL_AFTER_EVERY opt)) (\<lambda>r.
     if r = 0 then validate fw opt sz epoch best else ret best)))))"

text \<open>\<^verbatim>\<open>for epoch in range(start_epoch, opt.OPTIM.NUM_EPOCHS + 1)\<close>.\<close>

fun epochs ::
  "('t, 'm, 'f) framework \<Rightarrow> config \<Rightarrow> int \<Rightarrow> int list \<Rightarrow> 'f pynum \<times> int \<Rightarrow>
   ('f pynum \<times> int, ('t, 'm, 'f) world) prog" where
  "epochs fw opt sz [] best = ret best"
| "epochs fw opt sz (epoch # rest) best =
     andthen (epoch_body fw opt sz epoch best) (\<lambda>best'. epochs fw opt sz rest best')"

text \<open>Lines 30 to 70: configuration, accelerator, loaders, model, criteria, optimizer.\<close>

definition train_setup :: "('t, 'm, 'f) framework \<Rightarrow> config \<Rightarrow> (unit, ('t, 'm, 'f) world) prog" where
  "train_setup fw opt =
     andthen (call fw (LoadConfig ''config.yml'')) (\<lambda>_.
     andthen (call fw (SeedEverything (OPTIM_SEED opt))) (\<lambda>_.
     andthen (call fw (NewAccelerator (OPTIM_WANDB opt))) (\<lambda>_.
     andthen (if fw_is_local_main_process fw
              then effect fw (MakeDirs (TRAINING_SAVE_DIR opt) True)
                     (\<lambda>w. w\<lparr>dirs := insert (TRAINING_SAVE_DIR opt) (dirs w)\<rparr>)
              else ret ()) (\<lambda>_.
     andthen (call fw (AccInitTrackers ''UW'' [(''dataset'', TRAINING_TRAIN_DIR opt)])) (\<lambda>_.
     andthen (call fw (GetData (TRAINING_TRAIN_DIR opt) (MODEL_INPUT opt) (MODEL_TARGET opt)
                ''train'' (TRAINING_ORI opt) (TRAINING_PS_W opt) (TRAINING_PS_H opt))) (\<lambda>_.
     andthen (call fw (NewDataLoader TrainLoader (OPTIM_BATCH_SIZE opt) True 16 False True)) (\<lambda>_.
     andthen (call fw (GetData (TRAINING_VAL_DIR opt) (MODEL_INPUT opt) (MODEL_TARGET opt)
                ''test'' (TRAINING_ORI opt) (TRAINING_PS_W opt) (TRAINING_PS_H opt))) (\<lambda>_.
     andthen (call fw (NewDataLoader TestLoader 1 False 8 False True)) (\<lambda>_.
     andthen (effect fw NewModel (\<lambda>w. w\<lparr>learner := fw_new_model fw\<rparr>)) (\<lambda>_.
     andthen (call fw NewSmoothL1Loss) (\<lambda>_.
     andthen (call fw NewLPIPS) (\<lambda>_.
     andthen (call fw (NewAdamW (OPTIM_LR_INITIAL opt))) (\<lambda>_.
     andthen (call fw (NewCosineAnnealingLR (OPTIM_NUM_EPOCHS opt) (OPTIM_LR_MIN opt))) (\<lambda>_.
     andthen (call fw (AccPrepare [''trainloader'', ''testloader''])) (\<lambda>_.
     andthen (call fw (AccPrepare [''model''])) (\<lambda>_.
     call fw (AccPrepare [''optimizer_b'', ''scheduler_b''])))))))))))))))))"

definition train :: "('t, 'm, 'f) framework \<Rightarrow> config \<Rightarrow> ('f pynum \<times> int, ('t, 'm, 'f) world) prog" where
  "train fw opt =
     andthen (train_setup fw opt) (\<lambda>_.
     andthen (epochs fw opt (int (length (fw_test_batches fw))) [1 .. OPTIM_NUM_EPOCHS opt]
                (PyInt 0, 1)) (\<lambda>best.
     andthen (call fw AccEndTraining) (\<lambda>_.
     ret best)))"

section \<open>test.py\<close>

text \<open>\<^verbatim>\<open>test_data[2][0]\<close>.\<close>

definition first_name :: "'t batch \<Rightarrow> (string, 'w) prog" where
  "first_name b = (case names b of [] \<Rightarrow> raise IndexError | x # _ \<Rightarrow> ret x)"

text \<open>Lines 59 to 73.\<close>

definition test_batch ::
  "('t, 'm, 'f) framework \<Rightarrow> config \<Rightarrow> 't batch \<Rightarrow> 'f metrics \<Rightarrow> ('f metrics, ('t, 'm, 'f) world) prog" where
  "test_batch fw opt b acc =
     andthen (call fw (Contiguous (inp b))) (\<lambda>_.
     andthen (forward fw False (inp b)) (\<lambda>res.
     andthen (\<lambda>w. (if TESTING_RESULT_DIR opt \<notin> dirs w
                   then effect fw (MakeDirs (TESTING_RESULT_DIR opt) False)
                          (\<lambda>w. w\<lparr>dirs := insert (TESTING_RESULT_DIR opt) (dirs w)\<rparr>)
                   else ret ()) w) (\<lambda>_.
     andthen (first_name b) (\<lambda>name.
     andthen (call fw (SaveImage res (path_join (TESTING_RESULT_DIR opt) name))) (\<lambda>_.
     measure_batch fw res (tar b) acc)))))"

definition test_info :: "config \<Rightarrow> string" where
  "test_info opt =
     ''Test Result on '' @ MODEL_SESSION opt @ '', check point '' @ TESTING_WEIGHT opt @
     '', testing data '' @ TESTING_VAL_DIR opt"

definition test_log_stats :: "('t, 'm, 'f) framework \<Rightarrow> 'f metrics \<Rightarrow> string" where
  "test_log_stats fw avg =
     ''PSNR: '' @ fw_format_float fw (psnr avg) @
     '', SSIM: '' @ fw_format_float fw (ssim avg) @
     '', LPIPS: '' @ fw_format_float fw (lpips avg) @
     '', UCIQUE: '' @ fw_format_float fw (uciqe avg) @
     '', UIQM: '' @ fw_format_float fw (uiqm avg)"

text \<open>Lines 25 to 48.\<close>

definition test_setup :: "('t, 'm, 'f) framework \<Rightarrow> config \<Rightarrow> (unit, ('t, 'm, 'f) world) prog" where
  "test_setup fw opt =
     andthen (call fw (LoadConfig ''config.yml'')) (\<lambda>_.
     andthen (call fw (SeedEverything (OPTIM_SEED opt))) (\<lambda>_.
     andthen (call fw (NewAccelerator False)) (\<lambda>_.
     andthen (call fw NewLPIPS) (\<lambda>_.
     andthen (call fw (GetData (TESTING_VAL_DIR opt) (TESTING_INPUT opt) (TESTING_TARGET opt)
                ''test'' (TRAINING_ORI opt) (TRAINING_PS_W opt) (TRAINING_PS_H opt))) (\<lambda>_.
     andthen (call fw (NewDataLoader TestLoader 1 False 8 False True)) (\<lambda>_.
     andthen (effect fw NewModel (\<lambda>w. w\<lparr>learner := fw_new_model fw\<rparr>)) (\<lambda>_.
     andthen (effect fw (LoadCheckpoint (TESTING_WEIGHT opt))
                (upd_learner (fw_load_checkpoint fw (TESTING_WEIGHT opt)))) (\<lambda>_.
     andthen (call fw (AccPrepare [''model'', ''testloader''])) (\<lambda>_.
     effect fw ModelEval (\<lambda>w. w\<lparr>training := False\<rparr>))))))))))"

text \<open>Lines 50 to 79: the loop and the averages.\<close>

definition test_loop :: "('t, 'm, 'f) framework \<Rightarrow> config \<Rightarrow> ('f metrics, ('t, 'm, 'f) world) prog" where
  "test_loop fw opt =
     andthen (call fw (IterStart TestLoader False)) (\<lambda>_.
     andthen (for_each fw TestLoader (fw_test_batches fw) (test_batch fw opt) (zero_metrics fw)) (\<lambda>totals.
     average fw totals (int (length (fw_test_batches fw)))))"

text \<open>The whole of \<^verbatim>\<open>test()\<close>; its value is what the five \<^verbatim>\<open>stat_\<close> variables hold at the
  end.\<close>

definition test :: "('t, 'm, 'f) framework \<Rightarrow> config \<Rightarrow> ('f metrics, ('t, 'm, 'f) world) prog" where
  "test fw opt =
     andthen (test_setup fw opt) (\<lambda>_.
     andthen (test_loop fw opt) (\<lambda>avg.
     andthen (call fw (Print (test_info opt))) (\<lambda>_.
     andthen (call fw (Print (test_log_stats fw avg))) (\<lambda>_.
     andthen (append_line fw (path_join (LOG_LOG_DIR opt) (TESTING_LOG_FILE opt))
                [test_info opt, test_log_stats fw avg]) (\<lambda>_.
     ret avg)))))"

section \<open>Properties of runs\<close>

text \<open>A program propagates exceptions when, of the calls it makes, only the last can
  have raised, and then the program ends with that exception.\<close>

definition propagates :: "('t, 'm, 'f) framework \<Rightarrow> ('a, ('t, 'm, 'f) world) prog \<Rightarrow> bool" where
  "propagates fw m \<longleftrightarrow>
     (\<forall>w. \<exists>es. trace (snd (m w)) = trace w @ es \<and>
        (\<forall>k e. k < length es \<and> fw_raises fw (trace w @ take k es) (es ! k) = Some e \<longrightarrow>
           Suc k = length es \<and> fst (m w) = Inl e))"

text \<open>A program emits \<open>P\<close> when it only adds calls to the trace, and each satisfies \<open>P\<close>.\<close>

definition emits :: "(('t, 'm, 'f) event \<Rightarrow> bool) \<Rightarrow> ('a, ('t, 'm, 'f) world) prog \<Rightarrow> bool" where
  "emits P m \<longleftrightarrow> (\<forall>w. \<exists>es. trace (snd (m w)) = trace w @ es \<and> list_all P es)"

section \<open>A concrete configuration, framework and initial state\<close>

text \<open>One training batch per epoch, two evaluation samples, tensors and framework states
  as numbers, floats as reals with the exact operations (every value of the runs below
  is a small integer or a quarter, where the operations on doubles are exact too). The framework never raises and the process is the local main
  process; variants change one field.\<close>

definition ex_opt :: config where
  "ex_opt =
     \<lparr>OPTIM_SEED = 3407, OPTIM_WANDB = False, OPTIM_BATCH_SIZE = 4, OPTIM_LR_INITIAL = 1,
      OPTIM_LR_MIN = 0, OPTIM_NUM_EPOCHS = 2, TRAINING_SAVE_DIR = ''checkpoints'',
      TRAINING_TRAIN_DIR = ''data/train'', TRAINING_VAL_DIR = ''data/val'', TRAINING_ORI = False,
      TRAINING_PS_W = 256, TRAINING_PS_H = 256, TRAINING_VAL_AFTER_EVERY = 1,
      TRAINING_LOG_FILE = ''train.log'', MODEL_INPUT = ''input'', MODEL_TARGET = ''target'',
      MODEL_SESSION = ''UW'', LOG_LOG_DIR = ''log'', TESTING_VAL_DIR = ''data/test'',
      TESTING_INPUT = ''input'', TESTING_TARGET = ''target'', TESTING_RESULT_DIR = ''result'',
      TESTING_WEIGHT = ''best.pth'', TESTING_LOG_FILE = ''test.log''\<rparr>"

definition ex_fw :: "(nat, nat, real) framework" where
  "ex_fw =
     \<lparr>fw_raises = (\<lambda>_ _. None), fw_is_local_main_process = True,
      fw_train_batches = (\<lambda>_. [\<lparr>inp = 1, tar = 2, names = []\<rparr>]),
      fw_test_batches = [\<lparr>inp = 3, tar = 4, names = [''a.png'']\<rparr>,
                         \<lparr>inp = 5, tar = 6, names = [''b.png'']\<rparr>],
      fw_new_model = 0, fw_load_checkpoint = (\<lambda>_ m. m + 100),
      fw_forward = (\<lambda>tr g m x. (x + 10 * m, m)),
      fw_zero_grad = (\<lambda>m. m), fw_backward = (\<lambda>_ m. m), fw_optimizer_step = Suc,
      fw_scheduler_step = (\<lambda>m. m), fw_gather = (\<lambda>p. p),
      fw_psnr = (\<lambda>r t. real r), fw_ssim = (\<lambda>r t. 1 / 2), fw_lpips = (\<lambda>r t. 1 / 4),
      fw_uciqe = (\<lambda>r. 2), fw_uiqm = (\<lambda>r. 3),
      fw_float_of_int = real_of_int, fw_float_add = (\<lambda>x y. x + y),
      fw_float_div = (\<lambda>x n. x / real_of_int n), fw_float_gt = (\<lambda>x y. x > y),
      fw_format_float = (\<lambda>r. if r = 0 then ''0.0'' else ''1.5'')\<rparr>"

definition ex_world :: "(nat, nat, real) world" where
  "ex_world = \<lparr>trace = [], learner = 0, training = False, dirs = {}\<rparr>"

text \<open>The first forward pass of training raises; so does the first \<^verbatim>\<open>save_image\<close>.\<close>

definition ex_fw_failing :: "(nat, nat, real) framework" where
  "ex_fw_failing =
     ex_fw\<lparr>fw_raises := (\<lambda>_ ev. case ev of
        Forward x tr g \<Rightarrow> if tr then Some (FrameworkError ''CUDA out of memory'') else None
      | SaveImage r p \<Rightarrow> Some (FrameworkError ''disk full'')
      | _ \<Rightarrow> None)\<rparr>"

definition quiet :: "('t, 'm, 'f) framework \<Rightarrow> bool" where
  "quiet fw \<longleftrightarrow> (\<forall>h ev. fw_raises fw h ev = None)"

definition psnr_values :: "('t, 'm, 'f) framework \<Rightarrow> ('t, 'm, 'f) event list \<Rightarrow> 'f list" where
  "psnr_values fw es = concat (map (\<lambda>ev. case ev of PSNRCall r t \<Rightarrow> [fw_psnr fw r t] | _ \<Rightarrow> []) es)"

definition ssim_values :: "('t, 'm, 'f) framework \<Rightarrow> ('t, 'm, 'f) event list \<Rightarrow> 'f list" where
  "ssim_values fw es = concat (map (\<lambda>ev. case ev of SSIMCall r t \<Rightarrow> [fw_ssim fw r t] | _ \<Rightarrow> []) es)"

definition lpips_values :: "('t, 'm, 'f) framework \<Rightarrow> ('t, 'm, 'f) event list \<Rightarrow> 'f list" where
  "lpips_values fw es = concat (map (\<lambda>ev. case ev of LPIPSCall r t \<Rightarrow> [fw_lpips fw r t] | _ \<Rightarrow> []) es)"

definition uciqe_values :: "('t, 'm, 'f) framework \<Rightarrow> ('t, 'm, 'f) event list \<Rightarrow> 'f list" where
  "uciqe_values fw es = concat (map (\<lambda>ev. case ev of UCIQECall r \<Rightarrow> [fw_uciqe fw r] | _ \<Rightarrow> []) es)"

definition uiqm_values :: "('t, 'm, 'f) framework \<Rightarrow> ('t, 'm, 'f) event list \<Rightarrow> 'f list" where
  "uiqm_values fw es = concat (map (\<lambda>ev. case ev of UIQMCall r \<Rightarrow> [fw_uiqm fw r] | _ \<Rightarrow> []) es)"


definition tallied :: "('t, 'm, 'f) framework \<Rightarrow> ('t, 'm, 'f) event list \<Rightarrow> 'f metrics \<Rightarrow> 'f metrics \<Rightarrow> bool" where
  "tallied fw es acc acc' \<longleftrightarrow>
     psnr acc' = foldl (fw_float_add fw) (psnr acc) (psnr_values fw es) \<and>
     ssim acc' = foldl (fw_float_add fw) (ssim acc) (ssim_values fw es) \<and>
     lpips acc' = foldl (fw_float_add fw) (lpips acc) (lpips_values fw es) \<and>
     uciqe acc' = foldl (fw_float_add fw) (uciqe acc) (uciqe_values fw es) \<and>
     uiqm acc' = foldl (fw_float_add fw) (uiqm acc) (uiqm_values fw es)"


definition one_each :: "('t, 'm, 'f) framework \<Rightarrow> ('t, 'm, 'f) event list \<Rightarrow> nat \<Rightarrow> bool" where
  "one_each fw es n \<longleftrightarrow>
     length (psnr_values fw es) = n \<and> length (ssim_values fw es) = n \<and>
     length (lpips_values fw es) = n \<and> length (uciqe_values fw es) = n \<and>
     length (uiqm_values fw es) = n"

definition log_path :: "config \<Rightarrow> string" where
  "log_path opt = path_join (LOG_LOG_DIR opt) (TRAINING_LOG_FILE opt)"

definition report_events :: "('t, 'm, 'f) framework \<Rightarrow> config \<Rightarrow> string \<Rightarrow> ('t, 'm, 'f) event list" where
  "report_events fw opt s =
     (if fw_is_local_main_process fw
      then [Print s, FileOpen (log_path opt) ''a'', FileWrite (log_path opt) (json_dumps s @ [CHR 0x0A])]
      else [])"

definition save_events ::
  "('t, 'm, 'f) framework \<Rightarrow> config \<Rightarrow> int \<Rightarrow> 'f metrics \<Rightarrow> 'f pynum \<times> int \<Rightarrow> 'm \<Rightarrow>
   ('t, 'm, 'f) event list" where
  "save_events fw opt epoch avg best m =
     (if py_gt fw (psnr avg) (fst best)
      then [SaveCheckpoint [(''state_dict'', StateDictOf m)] epoch (MODEL_SESSION opt)
              (TRAINING_SAVE_DIR opt)]
      else [])"

definition new_best ::
  "('t, 'm, 'f) framework \<Rightarrow> int \<Rightarrow> 'f metrics \<Rightarrow> 'f pynum \<times> int \<Rightarrow> 'f pynum \<times> int" where
  "new_best fw epoch avg best =
     (if py_gt fw (psnr avg) (fst best) then (PyFloat (psnr avg), epoch) else best)"

definition saved_images :: "('t, 'm, 'f) event list \<Rightarrow> ('t \<times> string) list" where
  "saved_images es = concat (map (\<lambda>ev. case ev of SaveImage r p \<Rightarrow> [(r, p)] | _ \<Rightarrow> []) es)"

definition made_dirs :: "('t, 'm, 'f) event list \<Rightarrow> string list" where
  "made_dirs es = concat (map (\<lambda>ev. case ev of MakeDirs d x \<Rightarrow> [d] | _ \<Rightarrow> []) es)"

definition ensure_dir_events :: "string \<Rightarrow> string set \<Rightarrow> ('t, 'm, 'f) event list" where
  "ensure_dir_events d ds = (if d \<notin> ds then [MakeDirs d False] else [])"

definition test_batch_events ::
  "config \<Rightarrow> 't batch \<Rightarrow> bool \<Rightarrow> 't \<Rightarrow> string set \<Rightarrow> ('t, 'm, 'f) event list" where
  "test_batch_events opt b tr res ds =
     [Contiguous (inp b), Forward (inp b) tr False] @
     ensure_dir_events (TESTING_RESULT_DIR opt) ds @
     [SaveImage res (path_join (TESTING_RESULT_DIR opt) (hd (names b))),
      PSNRCall res (tar b), SSIMCall res (tar b), LPIPSCall res (tar b), UCIQECall res,
      UIQMCall res]"

fun restored :: "('t, 'm, 'f) framework \<Rightarrow> 'm \<Rightarrow> 't batch list \<Rightarrow> 't list" where
  "restored fw m [] = []"
| "restored fw m (b # bs) =
     fst (fw_forward fw False False m (inp b)) #
     restored fw (snd (fw_forward fw False False m (inp b))) bs"

definition result_path :: "config \<Rightarrow> 't batch \<Rightarrow> string" where
  "result_path opt b = path_join (TESTING_RESULT_DIR opt) (hd (names b))"

definition test_setup_events :: "config \<Rightarrow> ('t, 'm, 'f) event list" where
  "test_setup_events opt =
     [LoadConfig ''config.yml'', SeedEverything (OPTIM_SEED opt), NewAccelerator False, NewLPIPS,
      GetData (TESTING_VAL_DIR opt) (TESTING_INPUT opt) (TESTING_TARGET opt) ''test''
        (TRAINING_ORI opt) (TRAINING_PS_W opt) (TRAINING_PS_H opt),
      NewDataLoader TestLoader 1 False 8 False True, NewModel,
      LoadCheckpoint (TESTING_WEIGHT opt), AccPrepare [''model'', ''testloader''], ModelEval]"

definition test_log_path :: "config \<Rightarrow> string" where
  "test_log_path opt = path_join (LOG_LOG_DIR opt) (TESTING_LOG_FILE opt)"

definition test_report_events :: "('t, 'm, 'f) framework \<Rightarrow> config \<Rightarrow> 'f metrics \<Rightarrow> ('t, 'm, 'f) event list" where
  "test_report_events fw opt avg =
     [Print (test_info opt), Print (test_log_stats fw avg), FileOpen (test_log_path opt) ''a'',
      FileWrite (test_log_path opt) (json_dumps (test_info opt) @ [CHR 0x0A]),
      FileWrite (test_log_path opt) (json_dumps (test_log_stats fw avg) @ [CHR 0x0A])]"

definition loaded_model :: "('t, 'm, 'f) framework \<Rightarrow> config \<Rightarrow> 'm" where
  "loaded_model fw opt = fw_load_checkpoint fw (TESTING_WEIGHT opt) (fw_new_model fw)"

definition relative_name :: "string \<Rightarrow> bool" where
  "relative_name n \<longleftrightarrow> (case n of [] \<Rightarrow> True | c # _ \<Rightarrow> c \<noteq> CHR ''/'')"

text \<open>A program that never completes, and a program whose exceptions are a division by
  zero or one a framework call raised.\<close>

definition always_fails :: "('a, 'w) prog \<Rightarrow> bool" where
  "always_fails m \<longleftrightarrow> (\<forall>w. \<exists>e. fst (m w) = Inl e)"

definition blames :: "('t, 'm, 'f) framework \<Rightarrow> ('a, ('t, 'm, 'f) world) prog \<Rightarrow> bool" where
  "blames fw m \<longleftrightarrow>
     (\<forall>w e. fst (m w) = Inl e \<longrightarrow> e = ZeroDivisionError \<or> (\<exists>h ev. fw_raises fw h ev = Some e))"

definition ex_fw_empty :: "(nat, nat, real) framework" where
  "ex_fw_empty = ex_fw\<lparr>fw_test_batches := []\<rparr>"

definition train_steps :: "'t batch \<Rightarrow> 't \<Rightarrow> ('t, 'm, 'f) event list" where
  "train_steps b res =
     [Contiguous (inp b), ZeroGrad, Forward (inp b) True True, SmoothL1Call res (tar b),
      SSIMCall res (tar b), LPIPSCall res (tar b),
      AccBackward (Add (Add (SmoothL1 res (tar b))
                            (Mul (Const (3 / 10)) (Sub (Const 1) (SSIM res (tar b)))))
                       (Mul (Const (7 / 10)) (LPIPS res (tar b)))),
      OptimizerStep]"

definition training_events :: "'t batch list \<Rightarrow> 't list \<Rightarrow> ('t, 'm, 'f) event list" where
  "training_events bs rs =
     concat (map (\<lambda>(b, r). LoaderNext TrainLoader # train_steps b r) (zip bs rs)) @
     [LoaderNext TrainLoader]"

text \<open>The calls a validation pass of the given epoch can make.\<close>

definition validate_event :: "('t, 'm, 'f) framework \<Rightarrow> config \<Rightarrow> int \<Rightarrow> ('t, 'm, 'f) event \<Rightarrow> bool" where
  "validate_event fw opt epoch ev =
     (case ev of
        ModelEval \<Rightarrow> True
      | IterStart l d \<Rightarrow> l = TestLoader \<and> d = (\<not> fw_is_local_main_process fw)
      | LoaderNext l \<Rightarrow> l = TestLoader
      | Contiguous x \<Rightarrow> True
      | Forward x tr g \<Rightarrow> \<not> g
      | AccGather r t \<Rightarrow> True
      | PSNRCall r t \<Rightarrow> True
      | SSIMCall r t \<Rightarrow> True
      | LPIPSCall r t \<Rightarrow> True
      | UCIQECall r \<Rightarrow> True
      | UIQMCall r \<Rightarrow> True
      | SaveCheckpoint d e s dir \<Rightarrow>
          (\<exists>m. d = [(''state_dict'', StateDictOf m)]) \<and> e = epoch \<and> s = MODEL_SESSION opt \<and>
          dir = TRAINING_SAVE_DIR opt
      | AccLog d e \<Rightarrow> (\<exists>avg. d = metrics_dict avg) \<and> e = epoch
      | Print s \<Rightarrow>
          fw_is_local_main_process fw \<and> (\<exists>avg bp be. s = train_log_stats fw epoch avg bp be)
      | FileOpen p md \<Rightarrow> fw_is_local_main_process fw \<and> p = log_path opt \<and> md = ''a''
      | FileWrite p c \<Rightarrow>
          fw_is_local_main_process fw \<and> p = log_path opt \<and>
          (\<exists>avg bp be. c = json_dumps (train_log_stats fw epoch avg bp be) @ [CHR 0x0A])
      | _ \<Rightarrow> False)"




definition saved_checkpoints ::
  "('t, 'm, 'f) event list \<Rightarrow> ((string \<times> 'm ckpt) list \<times> int \<times> string \<times> string) list" where
  "saved_checkpoints es =
     concat (map (\<lambda>ev. case ev of SaveCheckpoint d e s dir \<Rightarrow> [(d, e, s, dir)] | _ \<Rightarrow> []) es)"

definition saved_epochs :: "('t, 'm, 'f) event list \<Rightarrow> int list" where
  "saved_epochs es = map (\<lambda>c. fst (snd c)) (saved_checkpoints es)"

text \<open>The passes that reported: the step and the PSNR of each \<^verbatim>\<open>accelerator.log\<close>.\<close>

definition logged_psnr :: "('t, 'm, 'f) event list \<Rightarrow> (int \<times> 'f) list" where
  "logged_psnr es =
     concat (map (\<lambda>ev. case ev of
        AccLog d e \<Rightarrow> (case map_of d ''PSNR'' of Some p \<Rightarrow> [(e, p)] | None \<Rightarrow> [])
      | _ \<Rightarrow> []) es)"

text \<open>What a completed call does to the state the framework mutates, and that state
  after a list of completed calls.\<close>

definition replay_step :: "('t, 'm, 'f) framework \<Rightarrow> ('t, 'm, 'f) event \<Rightarrow> 'm \<Rightarrow> 'm" where
  "replay_step fw ev m =
     (case ev of
        NewModel \<Rightarrow> fw_new_model fw
      | LoadCheckpoint p \<Rightarrow> fw_load_checkpoint fw p m
      | ZeroGrad \<Rightarrow> fw_zero_grad fw m
      | Forward x tr g \<Rightarrow> snd (fw_forward fw tr g m x)
      | AccBackward l \<Rightarrow> fw_backward fw l m
      | OptimizerStep \<Rightarrow> fw_optimizer_step fw m
      | SchedulerStep \<Rightarrow> fw_scheduler_step fw m
      | _ \<Rightarrow> m)"

definition model_after :: "('t, 'm, 'f) framework \<Rightarrow> 'm \<Rightarrow> ('t, 'm, 'f) event list \<Rightarrow> 'm" where
  "model_after fw m es = foldl (\<lambda>m ev. replay_step fw ev m) m es"

text \<open>The epoch a trace is in: the number of \<^verbatim>\<open>model.train()\<close> calls made, one at the start
  of each epoch.\<close>

definition epoch_of :: "('t, 'm, 'f) event list \<Rightarrow> int" where
  "epoch_of es = int (count_list es ModelTrain)"

text \<open>How many batches the validation loader has been asked for since the model was last
  put in evaluation mode.\<close>

definition val_fetches :: "('t, 'm, 'f) event list \<Rightarrow> nat" where
  "val_fetches es =
     foldl (\<lambda>c ev. if ev = ModelEval then 0 else if ev = LoaderNext TestLoader then Suc c else c)
       0 es"

text \<open>Every \<^verbatim>\<open>save_checkpoint\<close> call in \<open>es\<close> comes right after the validation loader is
  exhausted, in an epoch that validates and has not saved yet, and saves the state
  dictionary of the model as it is then, under the current epoch, the session name and the
  save directory.\<close>

definition checkpoints_ok ::
  "('t, 'm, 'f) framework \<Rightarrow> config \<Rightarrow> 'm \<Rightarrow> ('t, 'm, 'f) event list \<Rightarrow> bool" where
  "checkpoints_ok fw opt m0 es \<longleftrightarrow>
     (\<forall>k d e s dir. k < length es \<and> es ! k = SaveCheckpoint d e s dir \<longrightarrow>
        d = [(''state_dict'', StateDictOf (model_after fw m0 (take k es)))] \<and>
        e = epoch_of (take k es) \<and> 1 \<le> e \<and> e \<le> OPTIM_NUM_EPOCHS opt \<and>
        e mod TRAINING_VAL_AFTER_EVERY opt = 0 \<and>
        s = MODEL_SESSION opt \<and> dir = TRAINING_SAVE_DIR opt \<and>
        0 < k \<and> es ! (k - 1) = LoaderNext TestLoader \<and>
        val_fetches (take k es) = length (fw_test_batches fw) + 1 \<and>
        (\<forall>j d' e' s' dir'. j < k \<and> es ! j = SaveCheckpoint d' e' s' dir' \<longrightarrow> e' < e))"

text \<open>The state of a run that started in \<open>w0\<close>: the calls \<open>es\<close> made since satisfy \<open>X\<close>, the
  checkpoints among them are as above, and the model is what these calls made of it.\<close>

definition so_far ::
  "('t, 'm, 'f) framework \<Rightarrow> config \<Rightarrow> ('t, 'm, 'f) world \<Rightarrow> (('t, 'm, 'f) event list \<Rightarrow> bool) \<Rightarrow>
   ('t, 'm, 'f) world \<Rightarrow> bool" where
  "so_far fw opt w0 X w \<longleftrightarrow>
     (\<exists>es. trace w = trace w0 @ es \<and> learner w = model_after fw (learner w0) es \<and>
           checkpoints_ok fw opt (learner w0) es \<and> X es)"

definition settled ::
  "('t, 'm, 'f) framework \<Rightarrow> config \<Rightarrow> ('t, 'm, 'f) world \<Rightarrow> ('t, 'm, 'f) world \<Rightarrow> bool" where
  "settled fw opt w0 w \<longleftrightarrow>
     (\<exists>es. trace w = trace w0 @ es \<and> checkpoints_ok fw opt (learner w0) es)"

text \<open>Where a run is: in epoch \<open>n\<close>; in epoch \<open>n\<close> with no checkpoint of it yet; in its
  validation loop after \<open>c\<close> requests to the loader; right after such a request.\<close>

definition in_epoch :: "int \<Rightarrow> ('t, 'm, 'f) event list \<Rightarrow> bool" where
  "in_epoch n es \<longleftrightarrow>
     epoch_of es = n \<and> (\<forall>d e s dir. SaveCheckpoint d e s dir \<in> set es \<longrightarrow> e \<le> n)"

definition fresh_epoch :: "int \<Rightarrow> ('t, 'm, 'f) event list \<Rightarrow> bool" where
  "fresh_epoch n es \<longleftrightarrow>
     epoch_of es = n \<and> (\<forall>d e s dir. SaveCheckpoint d e s dir \<in> set es \<longrightarrow> e < n)"

definition fetching :: "int \<Rightarrow> nat \<Rightarrow> ('t, 'm, 'f) event list \<Rightarrow> bool" where
  "fetching n c es \<longleftrightarrow> fresh_epoch n es \<and> val_fetches es = c"

definition fetched :: "int \<Rightarrow> nat \<Rightarrow> ('t, 'm, 'f) event list \<Rightarrow> bool" where
  "fetched n c es \<longleftrightarrow> fetching n c es \<and> es \<noteq> [] \<and> last es = LoaderNext TestLoader"

definition triple ::
  "('w \<Rightarrow> bool) \<Rightarrow> ('a, 'w) prog \<Rightarrow> ('a \<Rightarrow> 'w \<Rightarrow> bool) \<Rightarrow> ('w \<Rightarrow> bool) \<Rightarrow> bool" where
  "triple P m Q E \<longleftrightarrow>
     (\<forall>w. P w \<longrightarrow> (case m w of (Inl e, w') \<Rightarrow> E w' | (Inr a, w') \<Rightarrow> Q a w'))"

definition keeps :: "('w \<Rightarrow> bool) \<Rightarrow> ('w \<Rightarrow> bool) \<Rightarrow> ('a, 'w) prog \<Rightarrow> bool" where
  "keeps P E m \<longleftrightarrow> triple P m (\<lambda>_. P) E"

definition plain :: "('t, 'm, 'f) event \<Rightarrow> bool" where
  "plain ev =
     (case ev of SaveCheckpoint d e s dir \<Rightarrow> False | ModelTrain \<Rightarrow> False | ModelEval \<Rightarrow> False
               | LoaderNext l \<Rightarrow> l \<noteq> TestLoader | _ \<Rightarrow> True)"

definition steady :: "(('t, 'm, 'f) event list \<Rightarrow> bool) \<Rightarrow> bool" where
  "steady X \<longleftrightarrow> (\<forall>es ev. plain ev \<and> X es \<longrightarrow> X (es @ [ev]))"

section \<open>Reasoning about programs\<close>

subsection \<open>Successful runs, step by step\<close>

lemma andthen_Inr_iff:
  "andthen m f w = (Inr b, w') \<longleftrightarrow> (\<exists>a w1. m w = (Inr a, w1) \<and> f a w1 = (Inr b, w'))"
  by (auto simp: andthen_def split: prod.splits sum.splits)

lemma act_Inr_iff:
  "act fw ev f w = (Inr a, w') \<longleftrightarrow>
     fw_raises fw (trace w) ev = None \<and> a = fst (f w) \<and> w' = (snd (f w))\<lparr>trace := trace w @ [ev]\<rparr>"
  by (auto simp: act_def split: option.splits prod.splits)

lemma call_Inr_iff:
  "call fw ev w = (Inr u, w') \<longleftrightarrow> fw_raises fw (trace w) ev = None \<and> w' = w\<lparr>trace := trace w @ [ev]\<rparr>"
  by (auto simp: call_def act_Inr_iff)

lemma effect_Inr_iff:
  "effect fw ev g w = (Inr u, w') \<longleftrightarrow>
     fw_raises fw (trace w) ev = None \<and> w' = (g w)\<lparr>trace := trace w @ [ev]\<rparr>"
  by (auto simp: effect_def act_Inr_iff)

lemma forward_Inr_iff:
  "forward fw g x w = (Inr r, w') \<longleftrightarrow>
     fw_raises fw (trace w) (Forward x (training w) g) = None \<and>
     r = fst (fw_forward fw (training w) g (learner w) x) \<and>
     w' = w\<lparr>learner := snd (fw_forward fw (training w) g (learner w) x),
            trace := trace w @ [Forward x (training w) g]\<rparr>"
  by (auto simp: forward_def act_Inr_iff split: prod.splits)

lemma ret_Inr_iff: "ret a w = (Inr b, w') \<longleftrightarrow> b = a \<and> w' = w"
  by (auto simp: ret_def)

lemma raise_Inr_iff: "raise e w = (Inr b, w') \<longleftrightarrow> False"
  by (simp add: raise_def)

lemmas Inr_iffs =
  andthen_Inr_iff call_Inr_iff effect_Inr_iff forward_Inr_iff ret_Inr_iff raise_Inr_iff

subsection \<open>What a program can emit; how exceptions travel\<close>

lemma emits_ret: "emits P (ret a)"
  by (simp add: emits_def ret_def)

lemma emits_raise: "emits P (raise e)"
  by (simp add: emits_def raise_def)

lemma emits_act: "P ev \<Longrightarrow> emits P (act fw ev f)"
  by (auto simp: emits_def act_def split: option.splits prod.splits)

lemma emits_call: "P ev \<Longrightarrow> emits P (call fw ev)"
  by (simp add: call_def emits_act)

lemma emits_effect: "P ev \<Longrightarrow> emits P (effect fw ev g)"
  by (simp add: effect_def emits_act)

lemma emits_forward: "(\<And>tr. P (Forward x tr g)) \<Longrightarrow> emits P (forward fw g x)"
  by (auto simp: emits_def forward_def act_def split: option.splits prod.splits)

lemma emits_andthen:
  assumes "emits P m" "\<And>a. emits P (f a)"
  shows "emits P (andthen m f)"
  unfolding emits_def
proof
  fix w
  from assms(1) obtain es1 where 1: "trace (snd (m w)) = trace w @ es1" "list_all P es1"
    by (auto simp: emits_def)
  show "\<exists>es. trace (snd (andthen m f w)) = trace w @ es \<and> list_all P es"
  proof (cases "m w")
    case (Pair r w1)
    show ?thesis
    proof (cases r)
      case (Inl e)
      with Pair 1 show ?thesis by (auto simp: andthen_def)
    next
      case (Inr a)
      from assms(2)[of a] obtain es2 where
        2: "trace (snd (f a w1)) = trace w1 @ es2" "list_all P es2"
        by (auto simp: emits_def)
      with Pair Inr 1 have "trace (snd (andthen m f w)) = trace w @ (es1 @ es2)" "list_all P (es1 @ es2)"
        by (auto simp: andthen_def)
      then show ?thesis by blast
    qed
  qed
qed

lemma emits_if: "(c \<Longrightarrow> emits P a) \<Longrightarrow> (\<not> c \<Longrightarrow> emits P b) \<Longrightarrow> emits P (if c then a else b)"
  by simp

lemma emits_world: "(\<And>v. emits P (m v)) \<Longrightarrow> emits P (\<lambda>w. m w w)"
  by (simp add: emits_def)

lemma emits_for_each:
  assumes "P (LoaderNext l)" "\<And>b acc. emits P (body b acc)"
  shows "emits P (for_each fw l bs body acc)"
  by (induction bs arbitrary: acc) (auto intro!: emits_andthen emits_call emits_ret assms)

lemma emits_py_truediv: "emits P (py_truediv fw x n)"
  by (simp add: py_truediv_def emits_ret emits_raise)

lemma emits_py_mod: "emits P (py_mod a b)"
  by (simp add: py_mod_def emits_ret emits_raise)

lemma emits_first_name: "emits P (first_name b)"
  by (simp add: first_name_def emits_ret emits_raise split: list.splits)


lemma propagates_ret: "propagates fw (ret a)"
  by (simp add: propagates_def ret_def)

lemma propagates_raise: "propagates fw (raise e)"
  by (simp add: propagates_def raise_def)

lemma propagates_act: "propagates fw (act fw ev f)"
  by (auto simp: propagates_def act_def split: option.splits prod.splits)

lemma propagates_call: "propagates fw (call fw ev)"
  by (simp add: call_def propagates_act)

lemma propagates_effect: "propagates fw (effect fw ev g)"
  by (simp add: effect_def propagates_act)

lemma propagates_forward: "propagates fw (forward fw g x)"
  by (auto simp: propagates_def forward_def act_def split: option.splits prod.splits)

lemma propagates_andthen:
  assumes "propagates fw m" "\<And>a. propagates fw (f a)"
  shows "propagates fw (andthen m f)"
  unfolding propagates_def
proof
  fix w
  from assms(1) obtain es1 where 1: "trace (snd (m w)) = trace w @ es1"
    and r1: "\<And>k e. k < length es1 \<Longrightarrow> fw_raises fw (trace w @ take k es1) (es1 ! k) = Some e \<Longrightarrow>
               Suc k = length es1 \<and> fst (m w) = Inl e"
    unfolding propagates_def by blast
  let ?goal = "\<exists>es. trace (snd (andthen m f w)) = trace w @ es \<and>
        (\<forall>k e. k < length es \<and> fw_raises fw (trace w @ take k es) (es ! k) = Some e \<longrightarrow>
           Suc k = length es \<and> fst (andthen m f w) = Inl e)"
  show ?goal
  proof (cases "m w")
    case (Pair r w1)
    show ?thesis
    proof (cases r)
      case (Inl e)
      with Pair 1 have a: "trace (snd (andthen m f w)) = trace w @ es1"
        and b: "fst (andthen m f w) = Inl e" and c: "fst (m w) = Inl e"
        by (simp_all add: andthen_def)
      have "Suc k = length es1 \<and> fst (andthen m f w) = Inl e'"
        if "k < length es1" "fw_raises fw (trace w @ take k es1) (es1 ! k) = Some e'" for k e'
        using r1[OF that] b c by simp
      with a show ?thesis by blast
    next
      case (Inr a)
      with Pair have run: "andthen m f w = f a w1" by (simp add: andthen_def)
      from Pair 1 have t1: "trace w1 = trace w @ es1" by simp
      from assms(2)[of a] obtain es2 where 2: "trace (snd (f a w1)) = trace w1 @ es2"
        and r2: "\<And>k e. k < length es2 \<Longrightarrow> fw_raises fw (trace w1 @ take k es2) (es2 ! k) = Some e \<Longrightarrow>
               Suc k = length es2 \<and> fst (f a w1) = Inl e"
        unfolding propagates_def by blast
      have quiet: "\<And>k e. k < length es1 \<Longrightarrow> fw_raises fw (trace w @ take k es1) (es1 ! k) \<noteq> Some e"
        using r1 Pair Inr by fastforce
      have "trace (snd (andthen m f w)) = trace w @ (es1 @ es2)"
        using run 2 t1 by simp
      moreover have "Suc k = length (es1 @ es2) \<and> fst (andthen m f w) = Inl e"
        if "k < length (es1 @ es2)"
          "fw_raises fw (trace w @ take k (es1 @ es2)) ((es1 @ es2) ! k) = Some e" for k e
      proof (cases "k < length es1")
        case True
        with that quiet[of k e] show ?thesis by (simp add: nth_append)
      next
        case False
        then have "k - length es1 < length es2" using that(1) by simp
        moreover have "fw_raises fw (trace w1 @ take (k - length es1) es2) (es2 ! (k - length es1)) = Some e"
          using that(2) False t1 by (simp add: nth_append)
        ultimately have "Suc (k - length es1) = length es2 \<and> fst (f a w1) = Inl e"
          by (rule r2)
        with False run show ?thesis by auto
      qed
      ultimately show ?thesis by blast
    qed
  qed
qed

lemma propagates_if: "propagates fw a \<Longrightarrow> propagates fw b \<Longrightarrow> propagates fw (if c then a else b)"
  by simp

lemma propagates_world: "(\<And>v. propagates fw (m v)) \<Longrightarrow> propagates fw (\<lambda>w. m w w)"
  by (simp add: propagates_def)

lemma propagates_for_each:
  assumes "\<And>b acc. propagates fw (body b acc)"
  shows "propagates fw (for_each fw l bs body acc)"
  by (induction bs arbitrary: acc)
     (auto intro!: propagates_andthen propagates_call propagates_ret assms)

lemma propagates_py_truediv: "propagates fw (py_truediv fw x n)"
  by (simp add: py_truediv_def propagates_ret propagates_raise)

lemma propagates_py_mod: "propagates fw (py_mod a b)"
  by (simp add: py_mod_def propagates_ret propagates_raise)

lemma propagates_first_name: "propagates fw (first_name b)"
  by (simp add: first_name_def propagates_ret propagates_raise split: list.splits)

lemmas propagates_intros =
  propagates_andthen propagates_call propagates_effect propagates_forward propagates_ret
  propagates_raise propagates_for_each propagates_py_truediv propagates_py_mod
  propagates_first_name propagates_if

lemma propagates_average: "propagates fw (average fw acc n)"
  unfolding average_def by (intro propagates_intros)

lemma propagates_measure_batch: "propagates fw (measure_batch fw r t acc)"
  unfolding measure_batch_def by (intro propagates_intros)

lemma propagates_train_batch: "propagates fw (train_batch fw b)"
  unfolding train_batch_def by (intro propagates_intros)

lemma propagates_val_batch: "propagates fw (val_batch fw b acc)"
  unfolding val_batch_def by (intro propagates_intros propagates_measure_batch)

lemma propagates_append_line: "propagates fw (append_line fw path ls)"
proof -
  have "propagates fw (foldr (\<lambda>s rest. andthen (call fw (FileWrite path (json_dumps s @ [CHR 0x0A]))) (\<lambda>_. rest)) ls (ret ()))"
    by (induction ls) (auto intro!: propagates_intros)
  then show ?thesis unfolding append_line_def by (intro propagates_intros)
qed

lemma propagates_keep_best: "propagates fw (keep_best fw opt epoch avg best)"
proof (cases "py_gt fw (psnr avg) (fst best)")
  case True
  have "propagates fw (\<lambda>w. andthen
              (call fw (SaveCheckpoint [(''state_dict'', StateDictOf (learner w))] epoch
                 (MODEL_SESSION opt) (TRAINING_SAVE_DIR opt)))
              (\<lambda>_. ret (PyFloat (psnr avg), epoch)) w)"
    by (rule propagates_world) (intro propagates_intros)
  with True show ?thesis by (simp add: keep_best_def)
next
  case False
  then show ?thesis by (simp add: keep_best_def propagates_ret)
qed

lemma propagates_report: "propagates fw (report fw opt s)"
  unfolding report_def by (intro propagates_intros propagates_append_line)

lemma propagates_validate: "propagates fw (validate fw opt sz epoch best)"
  unfolding validate_def
  by (intro propagates_intros propagates_val_batch propagates_average propagates_keep_best
      propagates_report)

lemma propagates_epoch_body: "propagates fw (epoch_body fw opt sz epoch best)"
  unfolding epoch_body_def
  by (intro propagates_intros propagates_train_batch propagates_validate)

lemma propagates_epochs: "propagates fw (epochs fw opt sz es best)"
  by (induction es arbitrary: best) (auto intro!: propagates_intros propagates_epoch_body)

lemma propagates_train_setup: "propagates fw (train_setup fw opt)"
  unfolding train_setup_def by (intro propagates_intros)

lemma propagates_train: "propagates fw (train fw opt)"
  unfolding train_def by (intro propagates_intros propagates_train_setup propagates_epochs)

lemma propagates_ensure_dir:
  "propagates fw (\<lambda>w. (if d \<notin> dirs w then effect fw (MakeDirs d False) g else ret ()) w)"
  by (rule propagates_world) (intro propagates_intros)

lemma propagates_test_batch: "propagates fw (test_batch fw opt b acc)"
  unfolding test_batch_def
  by (intro propagates_intros propagates_ensure_dir propagates_measure_batch)

lemma propagates_test_setup: "propagates fw (test_setup fw opt)"
  unfolding test_setup_def by (intro propagates_intros)

lemma propagates_test_loop: "propagates fw (test_loop fw opt)"
  unfolding test_loop_def by (intro propagates_intros propagates_test_batch propagates_average)

lemma propagates_test: "propagates fw (test fw opt)"
  unfolding test_def
  by (intro propagates_intros propagates_test_setup propagates_test_loop propagates_append_line)

subsection \<open>Unfolding the scripts\<close>

lemmas run_defs = andthen_def call_def act_def effect_def forward_def ret_def raise_def
  upd_learner_def py_truediv_def py_mod_def first_name_def

lemmas train_defs = train_def train_setup_def epoch_body_def validate_def report_def
  append_line_def keep_best_def average_def val_batch_def measure_batch_def train_batch_def
  add_metrics_def zero_metrics_def metrics_dict_def py_gt_def

lemmas test_defs = test_def test_setup_def test_loop_def test_batch_def average_def
  measure_batch_def append_line_def add_metrics_def zero_metrics_def path_join_def

subsection \<open>Evaluating the concrete runs\<close>

lemma ex_fw_simps:
  "fw_raises ex_fw = (\<lambda>_ _. None)"
  "fw_is_local_main_process ex_fw = True"
  "fw_train_batches ex_fw = (\<lambda>_. [\<lparr>inp = 1, tar = 2, names = []\<rparr>])"
  "fw_test_batches ex_fw = [\<lparr>inp = 3, tar = 4, names = [''a.png'']\<rparr>, \<lparr>inp = 5, tar = 6, names = [''b.png'']\<rparr>]"
  "fw_new_model ex_fw = 0"
  "fw_load_checkpoint ex_fw = (\<lambda>_ m. m + 100)"
  "fw_forward ex_fw = (\<lambda>tr g m x. (x + 10 * m, m))"
  "fw_zero_grad ex_fw = (\<lambda>m. m)"
  "fw_backward ex_fw = (\<lambda>_ m. m)"
  "fw_optimizer_step ex_fw = Suc"
  "fw_scheduler_step ex_fw = (\<lambda>m. m)"
  "fw_gather ex_fw = (\<lambda>p. p)"
  "fw_psnr ex_fw = (\<lambda>r t. real r)"
  "fw_ssim ex_fw = (\<lambda>r t. 1 / 2)"
  "fw_lpips ex_fw = (\<lambda>r t. 1 / 4)"
  "fw_uciqe ex_fw = (\<lambda>r. 2)"
  "fw_uiqm ex_fw = (\<lambda>r. 3)"
  "fw_format_float ex_fw = (\<lambda>r. if r = 0 then ''0.0'' else ''1.5'')"
  "fw_float_of_int ex_fw = real_of_int"
  "fw_float_add ex_fw = (\<lambda>x y. x + y)"
  "fw_float_div ex_fw = (\<lambda>x n. x / real_of_int n)"
  "fw_float_gt ex_fw = (\<lambda>x y. x > y)"
  by (simp_all add: ex_fw_def)

lemma ex_fw_failing_simps:
  "fw_raises ex_fw_failing h ev = (case ev of
        Forward x tr g \<Rightarrow> if tr then Some (FrameworkError ''CUDA out of memory'') else None
      | SaveImage r p \<Rightarrow> Some (FrameworkError ''disk full'')
      | _ \<Rightarrow> None)"
  "fw_is_local_main_process ex_fw_failing = True"
  "fw_train_batches ex_fw_failing = fw_train_batches ex_fw"
  "fw_test_batches ex_fw_failing = fw_test_batches ex_fw"
  "fw_new_model ex_fw_failing = 0"
  "fw_load_checkpoint ex_fw_failing = fw_load_checkpoint ex_fw"
  "fw_forward ex_fw_failing = fw_forward ex_fw"
  "fw_zero_grad ex_fw_failing = (\<lambda>m. m)"
  by (simp_all add: ex_fw_failing_def ex_fw_def)

lemma upto_1_2: "[1..2] = [1, 2::int]"
  by (simp add: upto.simps)

lemma ex_train_failing_trace:
  "trace (snd (train ex_fw_failing ex_opt ex_world)) =
    [LoadConfig ''config.yml'', SeedEverything 3407, NewAccelerator False,
      MakeDirs ''checkpoints'' True,
      AccInitTrackers ''UW'' [(''dataset'', ''data/train'')],
      GetData ''data/train'' ''input'' ''target'' ''train'' False 256 256,
      NewDataLoader TrainLoader 4 True 16 False True,
      GetData ''data/val'' ''input'' ''target'' ''test'' False 256 256,
      NewDataLoader TestLoader 1 False 8 False True, NewModel,
      NewSmoothL1Loss, NewLPIPS, NewAdamW 1, NewCosineAnnealingLR 2 0,
      AccPrepare [''trainloader'', ''testloader''], AccPrepare [''model''],
      AccPrepare [''optimizer_b'', ''scheduler_b''], ModelTrain,
      IterStart TrainLoader False, LoaderNext TrainLoader, Contiguous 1,
      ZeroGrad, Forward 1 True True]"
  by (simp add: run_defs train_defs ex_fw_simps ex_fw_failing_simps ex_opt_def ex_world_def upto_1_2)

lemma ex_test_failing_trace:
  "trace (snd (test ex_fw_failing ex_opt ex_world)) =
     [LoadConfig ''config.yml'', SeedEverything 3407, NewAccelerator False,
      NewLPIPS,
      GetData ''data/test'' ''input'' ''target'' ''test'' False 256 256,
      NewDataLoader TestLoader 1 False 8 False True, NewModel,
      LoadCheckpoint ''best.pth'', AccPrepare [''model'', ''testloader''],
      ModelEval, IterStart TestLoader False, LoaderNext TestLoader,
      Contiguous 3, Forward 3 False False, MakeDirs ''result'' False,
      SaveImage 1003 ''result/a.png'']"
  by (simp add: run_defs test_defs ex_fw_simps ex_fw_failing_simps ex_opt_def ex_world_def)

lemmas values_defs = psnr_values_def ssim_values_def lpips_values_def uciqe_values_def uiqm_values_def

lemma values_append:
  "psnr_values fw (xs @ ys) = psnr_values fw xs @ psnr_values fw ys"
  "ssim_values fw (xs @ ys) = ssim_values fw xs @ ssim_values fw ys"
  "lpips_values fw (xs @ ys) = lpips_values fw xs @ lpips_values fw ys"
  "uciqe_values fw (xs @ ys) = uciqe_values fw xs @ uciqe_values fw ys"
  "uiqm_values fw (xs @ ys) = uiqm_values fw xs @ uiqm_values fw ys"
  by (simp_all add: values_defs)

lemma values_Cons:
  "psnr_values fw (ev # es) = (case ev of PSNRCall r t \<Rightarrow> [fw_psnr fw r t] | _ \<Rightarrow> []) @ psnr_values fw es"
  "ssim_values fw (ev # es) = (case ev of SSIMCall r t \<Rightarrow> [fw_ssim fw r t] | _ \<Rightarrow> []) @ ssim_values fw es"
  "lpips_values fw (ev # es) = (case ev of LPIPSCall r t \<Rightarrow> [fw_lpips fw r t] | _ \<Rightarrow> []) @ lpips_values fw es"
  "uciqe_values fw (ev # es) = (case ev of UCIQECall r \<Rightarrow> [fw_uciqe fw r] | _ \<Rightarrow> []) @ uciqe_values fw es"
  "uiqm_values fw (ev # es) = (case ev of UIQMCall r \<Rightarrow> [fw_uiqm fw r] | _ \<Rightarrow> []) @ uiqm_values fw es"
  "psnr_values fw [] = []" "ssim_values fw [] = []" "lpips_values fw [] = []"
  "uciqe_values fw [] = []" "uiqm_values fw [] = []"
  by (simp_all add: values_defs)

lemma measure_batch_Inr:
  assumes "measure_batch fw r t acc w = (Inr acc', w')"
  shows "acc' = add_metrics fw r t acc \<and>
         w' = w\<lparr>trace := trace w @ [PSNRCall r t, SSIMCall r t, LPIPSCall r t, UCIQECall r, UIQMCall r]\<rparr>"
  using assms by (auto simp: measure_batch_def Inr_iffs)

lemma val_batch_Inr:
  assumes "val_batch fw b acc w = (Inr acc', w')"
  shows "\<exists>es. trace w' = trace w @ es \<and> tallied fw es acc acc' \<and> one_each fw es 1"
  using assms
  by (auto simp: val_batch_def Inr_iffs tallied_def one_each_def values_Cons add_metrics_def
           dest!: measure_batch_Inr)

lemma tallied_trans:
  "tallied fw es1 a b \<Longrightarrow> tallied fw es2 b c \<Longrightarrow> tallied fw (es1 @ es2) a c"
  by (simp add: tallied_def values_append)

lemma one_each_append:
  "one_each fw es1 m \<Longrightarrow> one_each fw es2 n \<Longrightarrow> one_each fw (es1 @ es2) (m + n)"
  by (simp add: one_each_def values_append)

lemma tallied_LoaderNext: "tallied fw [LoaderNext l] a a" "one_each fw [LoaderNext l] 0"
  by (simp_all add: tallied_def one_each_def values_Cons)

lemma val_loop_Inr:
  assumes "for_each fw l bs (val_batch fw) acc w = (Inr acc', w')"
  shows "\<exists>es. trace w' = trace w @ es \<and> tallied fw es acc acc' \<and> one_each fw es (length bs)"
  using assms
proof (induction bs arbitrary: acc w)
  case Nil
  then have "trace w' = trace w @ [LoaderNext l]" "acc' = acc"
    by (auto simp: Inr_iffs)
  then show ?case using tallied_LoaderNext(1)[of fw l acc] tallied_LoaderNext(2)[of fw l] by auto
next
  case (Cons b bs)
  from Cons.prems obtain w1 acc1 w2 where
    1: "call fw (LoaderNext l) w = (Inr (), w1)"
    and 2: "val_batch fw b acc w1 = (Inr acc1, w2)"
    and 3: "for_each fw l bs (val_batch fw) acc1 w2 = (Inr acc', w')"
    by (auto simp: andthen_Inr_iff)
  from 1 have t1: "trace w1 = trace w @ [LoaderNext l]" by (auto simp: Inr_iffs)
  from val_batch_Inr[OF 2] obtain es2 where
    t2: "trace w2 = trace w1 @ es2" "tallied fw es2 acc acc1" "one_each fw es2 1" by blast
  from Cons.IH[OF 3] obtain es3 where
    t3: "trace w' = trace w2 @ es3" "tallied fw es3 acc1 acc'" "one_each fw es3 (length bs)" by blast
  have "trace w' = trace w @ ([LoaderNext l] @ es2 @ es3)" using t1 t2 t3 by simp
  moreover have "tallied fw ([LoaderNext l] @ es2 @ es3) acc acc'"
    by (intro tallied_trans[OF tallied_LoaderNext(1)] tallied_trans[OF t2(2) t3(2)])
  moreover have "one_each fw ([LoaderNext l] @ es2 @ es3) (0 + (1 + length bs))"
    by (intro one_each_append tallied_LoaderNext t2 t3)
  ultimately show ?case by (metis add_0 plus_1_eq_Suc length_Cons)
qed

lemma average_Inr:
  assumes "average fw acc n w = (Inr avg, w')"
  shows "n \<noteq> 0 \<and> w' = w \<and> psnr avg = fw_float_div fw (psnr acc) n \<and>
    ssim avg = fw_float_div fw (ssim acc) n \<and> lpips avg = fw_float_div fw (lpips acc) n \<and>
    uciqe avg = fw_float_div fw (uciqe acc) n \<and> uiqm avg = fw_float_div fw (uiqm acc) n"
  using assms
  by (auto simp: average_def py_truediv_def Inr_iffs split: if_splits)

lemma keep_best_Inr:
  assumes "keep_best fw opt epoch avg best w = (Inr best', w')"
  shows "best' = new_best fw epoch avg best \<and>
         w' = w\<lparr>trace := trace w @ save_events fw opt epoch avg best (learner w)\<rparr>"
  using assms
  by (auto simp: keep_best_def Inr_iffs new_best_def save_events_def split: if_splits)

lemma report_Inr:
  assumes "report fw opt s w = (Inr u, w')"
  shows "w' = w\<lparr>trace := trace w @ report_events fw opt s\<rparr>"
  using assms
  by (auto simp: report_def append_line_def Inr_iffs report_events_def log_path_def split: if_splits)

lemma validate_Inr:
  assumes "validate fw opt sz epoch best w = (Inr best', w')"
  shows "\<exists>es totals avg m.
     tallied fw es (zero_metrics fw) totals \<and> one_each fw es (length (fw_test_batches fw)) \<and>
     average fw totals sz w = (Inr avg, w) \<and>
     best' = new_best fw epoch avg best \<and>
     trace w' = trace w @ [ModelEval, IterStart TestLoader (\<not> fw_is_local_main_process fw)] @ es @
       save_events fw opt epoch avg best m @ [AccLog (metrics_dict avg) epoch] @
       report_events fw opt (train_log_stats fw epoch avg (fst best') (snd best'))"
proof -
  from assms obtain w1 w2 totals w3 avg w4 bst w5 w6 where
    1: "effect fw ModelEval (\<lambda>w. w\<lparr>training := False\<rparr>) w = (Inr (), w1)"
    and 2: "call fw (IterStart TestLoader (\<not> fw_is_local_main_process fw)) w1 = (Inr (), w2)"
    and 3: "for_each fw TestLoader (fw_test_batches fw) (val_batch fw) (zero_metrics fw) w2 = (Inr totals, w3)"
    and 4: "average fw totals sz w3 = (Inr avg, w4)"
    and 5: "keep_best fw opt epoch avg best w4 = (Inr bst, w5)"
    and 6: "call fw (AccLog (metrics_dict avg) epoch) w5 = (Inr (), w6)"
    and 7: "report fw opt (train_log_stats fw epoch avg (fst bst) (snd bst)) w6 = (Inr (), w')"
    and 8: "best' = bst"
    unfolding validate_def by (auto simp: andthen_Inr_iff ret_Inr_iff)
  from 1 2 have t2: "trace w2 = trace w @ [ModelEval, IterStart TestLoader (\<not> fw_is_local_main_process fw)]"
    by (auto simp: Inr_iffs)
  from val_loop_Inr[OF 3] obtain es where
    t3: "trace w3 = trace w2 @ es" "tallied fw es (zero_metrics fw) totals"
        "one_each fw es (length (fw_test_batches fw))" by blast
  from average_Inr[OF 4] have w4: "w4 = w3" by simp
  have avg: "average fw totals sz w = (Inr avg, w)"
    using 4 by (auto simp: average_def py_truediv_def Inr_iffs split: if_splits)
  from keep_best_Inr[OF 5] have b: "bst = new_best fw epoch avg best"
    and t5: "trace w5 = trace w4 @ save_events fw opt epoch avg best (learner w4)" by simp_all
  from 6 have t6: "trace w6 = trace w5 @ [AccLog (metrics_dict avg) epoch]" by (auto simp: Inr_iffs)
  from report_Inr[OF 7] have
    t7: "trace w' = trace w6 @ report_events fw opt (train_log_stats fw epoch avg (fst bst) (snd bst))"
    by simp
  show ?thesis
    using t2 t3 w4 avg b t5 t6 t7 8 by auto
qed

lemma saved_images_simps:
  "saved_images (xs @ ys) = saved_images xs @ saved_images ys"
  "saved_images (ev # es) = (case ev of SaveImage r p \<Rightarrow> [(r, p)] | _ \<Rightarrow> []) @ saved_images es"
  "saved_images [] = []"
  by (simp_all add: saved_images_def)

lemma made_dirs_simps:
  "made_dirs (xs @ ys) = made_dirs xs @ made_dirs ys"
  "made_dirs (ev # es) = (case ev of MakeDirs d x \<Rightarrow> [d] | _ \<Rightarrow> []) @ made_dirs es"
  "made_dirs [] = []"
  by (simp_all add: made_dirs_def)

lemma first_name_Inr: "first_name b w = (Inr n, w') \<longleftrightarrow> names b \<noteq> [] \<and> n = hd (names b) \<and> w' = w"
  by (auto simp: first_name_def ret_def raise_def split: list.splits)

lemma test_batch_Inr:
  assumes "test_batch fw opt b acc w = (Inr acc', w')"
  shows "names b \<noteq> [] \<and>
         acc' = add_metrics fw (fst (fw_forward fw (training w) False (learner w) (inp b))) (tar b) acc \<and>
         trace w' = trace w @ test_batch_events opt b (training w)
            (fst (fw_forward fw (training w) False (learner w) (inp b))) (dirs w) \<and>
         dirs w' = insert (TESTING_RESULT_DIR opt) (dirs w) \<and>
         training w' = training w \<and>
         learner w' = snd (fw_forward fw (training w) False (learner w) (inp b))"
  using assms
  by (auto simp: test_batch_def Inr_iffs first_name_Inr test_batch_events_def ensure_dir_events_def
           split: if_splits dest!: measure_batch_Inr)

lemma test_batch_events_values:
  "tallied fw (test_batch_events opt b tr res ds) acc (add_metrics fw res (tar b) acc)"
  "one_each fw (test_batch_events opt b tr res ds) 1"
  "saved_images (test_batch_events opt b tr res ds) = [(res, result_path opt b)]"
  "made_dirs (test_batch_events opt b tr res ds) =
     (if TESTING_RESULT_DIR opt \<notin> ds then [TESTING_RESULT_DIR opt] else [])"
  by (simp_all add: test_batch_events_def ensure_dir_events_def tallied_def one_each_def
        values_append values_Cons saved_images_simps made_dirs_simps add_metrics_def
        result_path_def)

lemma test_each_Inr:
  fixes fw :: "('t, 'm, 'f) framework"
  assumes "for_each fw l bs (test_batch fw opt) acc w = (Inr acc', w')" "\<not> training w"
  shows "\<exists>es. trace w' = trace w @ es \<and> tallied fw es acc acc' \<and> one_each fw es (length bs) \<and>
     saved_images es = zip (restored fw (learner w) bs) (map (result_path opt) bs) \<and>
     (\<forall>b\<in>set bs. names b \<noteq> []) \<and>
     made_dirs es = (if bs \<noteq> [] \<and> TESTING_RESULT_DIR opt \<notin> dirs w then [TESTING_RESULT_DIR opt] else []) \<and>
     dirs w' = (if bs = [] then dirs w else insert (TESTING_RESULT_DIR opt) (dirs w)) \<and>
     \<not> training w'"
  using assms
proof (induction bs arbitrary: acc w)
  case Nil
  then have "trace w' = trace w @ [LoaderNext l]" "acc' = acc" "dirs w' = dirs w" "training w' = training w"
    by (auto simp: Inr_iffs)
  then show ?case
    using tallied_LoaderNext(1)[of fw l acc] tallied_LoaderNext(2)[of fw l] Nil.prems(2)
    by (auto simp: saved_images_simps made_dirs_simps)
next
  case (Cons b bs)
  from Cons.prems obtain w1 acc1 w2 where
    1: "call fw (LoaderNext l) w = (Inr (), w1)"
    and 2: "test_batch fw opt b acc w1 = (Inr acc1, w2)"
    and 3: "for_each fw l bs (test_batch fw opt) acc1 w2 = (Inr acc', w')"
    by (auto simp: andthen_Inr_iff)
  from 1 have w1: "w1 = w\<lparr>trace := trace w @ [LoaderNext l]\<rparr>" by (auto simp: Inr_iffs)
  define res where "res = fst (fw_forward fw False False (learner w) (inp b))"
  define m1 where "m1 = snd (fw_forward fw False False (learner w) (inp b))"
  define es2 :: "('t, 'm, 'f) event list" where "es2 = test_batch_events opt b False res (dirs w)"
  from test_batch_Inr[OF 2] Cons.prems(2) have
    n: "names b \<noteq> []" and a1: "acc1 = add_metrics fw res (tar b) acc"
    and t2: "trace w2 = trace w1 @ es2"
    and d2: "dirs w2 = insert (TESTING_RESULT_DIR opt) (dirs w)"
    and tr2: "\<not> training w2" and l2: "learner w2 = m1"
    by (simp_all add: w1 res_def m1_def es2_def)
  from Cons.IH[OF 3 tr2] obtain es3 where
    t3: "trace w' = trace w2 @ es3" and y3: "tallied fw es3 acc1 acc'"
    and o3: "one_each fw es3 (length bs)"
    and s3: "saved_images es3 = zip (restored fw (learner w2) bs) (map (result_path opt) bs)"
    and n3: "\<forall>b\<in>set bs. names b \<noteq> []"
    and m3: "made_dirs es3 = (if bs \<noteq> [] \<and> TESTING_RESULT_DIR opt \<notin> dirs w2 then [TESTING_RESULT_DIR opt] else [])"
    and d3: "dirs w' = (if bs = [] then dirs w2 else insert (TESTING_RESULT_DIR opt) (dirs w2))"
    and tr3: "\<not> training w'"
    by blast
  let ?es = "[LoaderNext l] @ es2 @ es3"
  have "trace w' = trace w @ ?es" using w1 t2 t3 by simp
  moreover have "tallied fw ?es acc acc'"
    using test_batch_events_values(1)[of fw opt b False res "dirs w" acc] y3
    unfolding a1 es2_def
    by (intro tallied_trans[OF tallied_LoaderNext(1)] tallied_trans)
  moreover have "one_each fw ?es (0 + (1 + length bs))"
    unfolding es2_def
    by (intro one_each_append tallied_LoaderNext test_batch_events_values o3)
  then have "one_each fw ?es (length (b # bs))" by simp
  moreover have "saved_images ?es = zip (restored fw (learner w) (b # bs)) (map (result_path opt) (b # bs))"
    using s3 l2 by (simp add: saved_images_simps es2_def test_batch_events_values res_def m1_def)
  moreover have "\<forall>b\<in>set (b # bs). names b \<noteq> []" using n n3 by simp
  moreover have "made_dirs ?es = (if TESTING_RESULT_DIR opt \<notin> dirs w then [TESTING_RESULT_DIR opt] else [])"
    using m3 d2 by (simp add: made_dirs_simps es2_def test_batch_events_values)
  moreover have "dirs w' = insert (TESTING_RESULT_DIR opt) (dirs w)" using d3 d2 by auto
  ultimately show ?case using tr3 by (intro exI[of _ ?es]) simp
qed

lemma test_setup_Inr:
  assumes "test_setup fw opt w = (Inr u, w')"
  shows "w' = w\<lparr>learner := loaded_model fw opt, training := False,
                trace := trace w @ test_setup_events opt\<rparr>"
  using assms
  by (auto simp: test_setup_def Inr_iffs test_setup_events_def upd_learner_def loaded_model_def)

lemma average_world: "average fw acc n w = (Inr avg, w') \<Longrightarrow> average fw acc n v = (Inr avg, v)"
  by (auto simp: average_def py_truediv_def Inr_iffs split: if_splits)

lemma test_loop_Inr:
  assumes "test_loop fw opt w = (Inr avg, w')" "\<not> training w"
  shows "\<exists>es totals. trace w' = trace w @ [IterStart TestLoader False] @ es \<and>
     tallied fw es (zero_metrics fw) totals \<and> one_each fw es (length (fw_test_batches fw)) \<and>
     average fw totals (int (length (fw_test_batches fw))) w = (Inr avg, w) \<and>
     saved_images es =
       zip (restored fw (learner w) (fw_test_batches fw)) (map (result_path opt) (fw_test_batches fw)) \<and>
     (\<forall>b\<in>set (fw_test_batches fw). names b \<noteq> []) \<and>
     made_dirs es = (if TESTING_RESULT_DIR opt \<notin> dirs w then [TESTING_RESULT_DIR opt] else []) \<and>
     dirs w' = insert (TESTING_RESULT_DIR opt) (dirs w) \<and> fw_test_batches fw \<noteq> []"
proof -
  from assms(1) obtain w1 totals w2 where
    1: "call fw (IterStart TestLoader False) w = (Inr (), w1)"
    and 2: "for_each fw TestLoader (fw_test_batches fw) (test_batch fw opt) (zero_metrics fw) w1 = (Inr totals, w2)"
    and 3: "average fw totals (int (length (fw_test_batches fw))) w2 = (Inr avg, w')"
    unfolding test_loop_def by (auto simp: andthen_Inr_iff)
  from 1 have w1: "w1 = w\<lparr>trace := trace w @ [IterStart TestLoader False]\<rparr>" by (auto simp: Inr_iffs)
  then have "\<not> training w1" using assms(2) by simp
  from test_each_Inr[OF 2 this] obtain es where
    e: "trace w2 = trace w1 @ es" "tallied fw es (zero_metrics fw) totals"
       "one_each fw es (length (fw_test_batches fw))"
       "saved_images es = zip (restored fw (learner w1) (fw_test_batches fw)) (map (result_path opt) (fw_test_batches fw))"
       "\<forall>b\<in>set (fw_test_batches fw). names b \<noteq> []"
       "made_dirs es = (if fw_test_batches fw \<noteq> [] \<and> TESTING_RESULT_DIR opt \<notin> dirs w1 then [TESTING_RESULT_DIR opt] else [])"
       "dirs w2 = (if fw_test_batches fw = [] then dirs w1 else insert (TESTING_RESULT_DIR opt) (dirs w1))"
    by blast
  from average_Inr[OF 3] have ne: "fw_test_batches fw \<noteq> []" and w2: "w' = w2" by auto
  show ?thesis
    using e ne w2 w1 average_world[OF 3, of w] by (intro exI[of _ es] exI[of _ totals]) simp
qed

lemma append_line_two_Inr:
  assumes "append_line fw p [s1, s2] w = (Inr u, w')"
  shows "w' = w\<lparr>trace := trace w @ [FileOpen p ''a'', FileWrite p (json_dumps s1 @ [CHR 0x0A]),
                                     FileWrite p (json_dumps s2 @ [CHR 0x0A])]\<rparr>"
  using assms by (auto simp: append_line_def Inr_iffs)

lemma test_Inr:
  assumes "test fw opt w = (Inr avg, w')"
  shows "\<exists>es totals.
     trace w' = trace w @ test_setup_events opt @ [IterStart TestLoader False] @ es @
                  test_report_events fw opt avg \<and>
     tallied fw es (zero_metrics fw) totals \<and> one_each fw es (length (fw_test_batches fw)) \<and>
     average fw totals (int (length (fw_test_batches fw))) w = (Inr avg, w) \<and>
     saved_images es =
       zip (restored fw (loaded_model fw opt) (fw_test_batches fw))
           (map (result_path opt) (fw_test_batches fw)) \<and>
     (\<forall>b\<in>set (fw_test_batches fw). names b \<noteq> []) \<and>
     made_dirs es = (if TESTING_RESULT_DIR opt \<notin> dirs w then [TESTING_RESULT_DIR opt] else []) \<and>
     dirs w' = insert (TESTING_RESULT_DIR opt) (dirs w) \<and> fw_test_batches fw \<noteq> []"
proof -
  from assms obtain w1 a w2 w3 w4 where
    1: "test_setup fw opt w = (Inr (), w1)"
    and 2: "test_loop fw opt w1 = (Inr a, w2)"
    and 3: "call fw (Print (test_info opt)) w2 = (Inr (), w3)"
    and 4: "call fw (Print (test_log_stats fw a)) w3 = (Inr (), w4)"
    and 5: "append_line fw (path_join (LOG_LOG_DIR opt) (TESTING_LOG_FILE opt))
              [test_info opt, test_log_stats fw a] w4 = (Inr (), w')"
    and 6: "avg = a"
    unfolding test_def by (auto simp: andthen_Inr_iff ret_Inr_iff)
  note w1 = test_setup_Inr[OF 1]
  then have "\<not> training w1" by simp
  from test_loop_Inr[OF 2 this] obtain es totals where
    e: "trace w2 = trace w1 @ [IterStart TestLoader False] @ es"
       "tallied fw es (zero_metrics fw) totals" "one_each fw es (length (fw_test_batches fw))"
       "average fw totals (int (length (fw_test_batches fw))) w1 = (Inr a, w1)"
       "saved_images es =
          zip (restored fw (learner w1) (fw_test_batches fw)) (map (result_path opt) (fw_test_batches fw))"
       "\<forall>b\<in>set (fw_test_batches fw). names b \<noteq> []"
       "made_dirs es = (if TESTING_RESULT_DIR opt \<notin> dirs w1 then [TESTING_RESULT_DIR opt] else [])"
       "dirs w2 = insert (TESTING_RESULT_DIR opt) (dirs w1)" "fw_test_batches fw \<noteq> []"
    by blast
  from 3 4 have w4: "w4 = w2\<lparr>trace := trace w2 @ [Print (test_info opt), Print (test_log_stats fw a)]\<rparr>"
    by (auto simp: Inr_iffs)
  note w' = append_line_two_Inr[OF 5]
  show ?thesis
    using e w1 w4 w' 6 average_world[OF e(4), of w]
    by (intro exI[of _ es] exI[of _ totals])
       (simp add: test_report_events_def test_log_path_def)
qed






lemma ex_test_result:
  "fst (test ex_fw ex_opt ex_world) =
     Inr \<lparr>psnr = 1004, ssim = 1 / 2, lpips = 1 / 4, uciqe = 2, uiqm = 3\<rparr>"
  by (simp add: run_defs test_defs ex_fw_simps ex_opt_def ex_world_def)

lemma length_restored: "length (restored fw m bs) = length bs"
  by (induction bs arbitrary: m) simp_all

lemma path_join_relative:
  assumes "relative_name n"
  shows "\<exists>sep. path_join d n = d @ sep @ n \<and> (sep = [] \<or> sep = ''/'')"
  using assms by (cases n) (auto simp: path_join_def relative_name_def)

lemma test_images:
  assumes "test fw opt w = (Inr res, w')"
  shows "\<exists>es. trace w' = trace w @ es \<and>
      saved_images es = zip (restored fw (loaded_model fw opt) (fw_test_batches fw))
                            (map (result_path opt) (fw_test_batches fw)) \<and>
      length (saved_images es) = length (fw_test_batches fw) \<and>
      made_dirs es = (if TESTING_RESULT_DIR opt \<in> dirs w then [] else [TESTING_RESULT_DIR opt]) \<and>
      TESTING_RESULT_DIR opt \<in> dirs w'"
proof -
  from test_Inr[OF assms] obtain es totals where
    v: "trace w' = trace w @ test_setup_events opt @ [IterStart TestLoader False] @ es @
                  test_report_events fw opt res"
     "saved_images es =
       zip (restored fw (loaded_model fw opt) (fw_test_batches fw))
           (map (result_path opt) (fw_test_batches fw))"
     "made_dirs es = (if TESTING_RESULT_DIR opt \<notin> dirs w then [TESTING_RESULT_DIR opt] else [])"
     "dirs w' = insert (TESTING_RESULT_DIR opt) (dirs w)"
    by blast
  let ?es = "test_setup_events opt @ [IterStart TestLoader False] @ es @ test_report_events fw opt res"
  have "saved_images ?es = saved_images es" "made_dirs ?es = made_dirs es"
    by (simp_all add: saved_images_simps made_dirs_simps test_setup_events_def test_report_events_def)
  with v show ?thesis
    by (intro exI[of _ ?es]) (auto simp: length_restored)
qed

lemma test_batch_image:
  assumes "test_batch fw opt b acc v = (Inr acc', v')"
  shows "\<exists>es. trace v' = trace v @ es \<and>
      saved_images es = [(fst (fw_forward fw (training v) False (learner v) (inp b)), result_path opt b)] \<and>
      made_dirs es = (if TESTING_RESULT_DIR opt \<in> dirs v then [] else [TESTING_RESULT_DIR opt]) \<and>
      TESTING_RESULT_DIR opt \<in> dirs v'"
  using test_batch_Inr[OF assms]
  by (auto simp: test_batch_events_values)

lemma ex_test_saved:
  "saved_images (trace (snd (test ex_fw ex_opt ex_world))) =
     [(1003, ''result/a.png''), (1005, ''result/b.png'')]"
  by (simp add: run_defs test_defs ex_fw_simps ex_opt_def ex_world_def saved_images_simps)

lemma always_fails_left: "always_fails m \<Longrightarrow> always_fails (andthen m f)"
  unfolding always_fails_def andthen_def
  by (auto split: prod.splits sum.splits) (metis fst_conv sum.distinct(1))

lemma always_fails_right: "(\<And>a. always_fails (f a)) \<Longrightarrow> always_fails (andthen m f)"
  unfolding always_fails_def andthen_def
  by (auto split: prod.splits sum.splits)

lemma always_fails_truediv: "always_fails (py_truediv fw x 0)"
  by (simp add: always_fails_def py_truediv_def raise_def)

lemma always_fails_average: "always_fails (average fw acc 0)"
  unfolding average_def by (intro always_fails_left always_fails_truediv)

lemma blames_ret: "blames fw (ret a)"
  by (simp add: blames_def ret_def)

lemma blames_raise: "blames fw (raise ZeroDivisionError)"
  by (simp add: blames_def raise_def)

lemma blames_act: "blames fw (act fw ev f)"
  by (auto simp: blames_def act_def split: option.splits prod.splits)

lemma blames_call: "blames fw (call fw ev)"
  by (simp add: call_def blames_act)

lemma blames_effect: "blames fw (effect fw ev g)"
  by (simp add: effect_def blames_act)

lemma blames_andthen:
  assumes "blames fw m" "\<And>a. blames fw (f a)"
  shows "blames fw (andthen m f)"
  unfolding blames_def
proof (intro allI impI)
  fix w e assume a: "fst (andthen m f w) = Inl e"
  show "e = ZeroDivisionError \<or> (\<exists>h ev. fw_raises fw h ev = Some e)"
  proof (cases "m w")
    case (Pair r w1)
    show ?thesis
    proof (cases r)
      case (Inl e1)
      with Pair a have "fst (m w) = Inl e" by (simp add: andthen_def)
      with assms(1) show ?thesis unfolding blames_def by blast
    next
      case (Inr x)
      with Pair a have "fst (f x w1) = Inl e" by (simp add: andthen_def)
      with assms(2)[of x] show ?thesis unfolding blames_def by blast
    qed
  qed
qed

lemma blames_truediv: "blames fw (py_truediv fw x n)"
  by (simp add: py_truediv_def blames_ret blames_raise)

lemmas blames_intros = blames_andthen blames_call blames_effect blames_ret blames_raise blames_truediv

lemma blames_average: "blames fw (average fw acc n)"
  unfolding average_def by (intro blames_intros)

lemma blames_append_line: "blames fw (append_line fw path ls)"
proof -
  have "blames fw (foldr (\<lambda>s rest. andthen (call fw (FileWrite path (json_dumps s @ [CHR 0x0A]))) (\<lambda>_. rest)) ls (ret ()))"
    by (induction ls) (auto intro!: blames_intros)
  then show ?thesis unfolding append_line_def by (intro blames_intros)
qed

lemma blames_forward: "blames fw (forward fw g x)"
  by (auto simp: blames_def forward_def act_def split: option.splits prod.splits)

lemma blames_for_each:
  assumes "\<And>b acc. blames fw (body b acc)"
  shows "blames fw (for_each fw l bs body acc)"
  by (induction bs arbitrary: acc) (auto intro!: blames_intros assms)

lemma blames_measure_batch: "blames fw (measure_batch fw r t acc)"
  unfolding measure_batch_def by (intro blames_intros)

lemma blames_val_batch: "blames fw (val_batch fw b acc)"
  unfolding val_batch_def by (intro blames_intros blames_forward blames_measure_batch)

lemma blames_keep_best: "blames fw (keep_best fw opt epoch avg best)"
  by (auto simp: blames_def keep_best_def andthen_def call_def act_def ret_def
           split: option.splits if_splits)

lemma blames_report: "blames fw (report fw opt s)"
  unfolding report_def by (auto intro!: blames_intros blames_append_line)

lemma blames_validate: "blames fw (validate fw opt sz epoch best)"
  unfolding validate_def
  by (intro blames_intros blames_for_each blames_val_batch blames_average blames_keep_best
        blames_report)

lemma always_fails_validate:
  assumes "fw_test_batches fw = []"
  shows "always_fails (validate fw opt (int (length (fw_test_batches fw))) epoch best)"
  unfolding validate_def
  apply (rule always_fails_right)
  apply (rule always_fails_right)
  apply (rule always_fails_right)
  apply (rule always_fails_left)
  apply (simp add: assms always_fails_average)
  done

lemma blames_test_setup: "blames fw (test_setup fw opt)"
  unfolding test_setup_def by (intro blames_intros)

lemma always_fails_test:
  assumes "fw_test_batches fw = []"
  shows "always_fails (test fw opt)"
  unfolding test_def test_loop_def
  apply (rule always_fails_right)
  apply (rule always_fails_left)
  apply (rule always_fails_right)
  apply (rule always_fails_right)
  apply (simp add: assms always_fails_average)
  done

lemma blames_test:
  assumes "fw_test_batches fw = []"
  shows "blames fw (test fw opt)"
  unfolding test_def test_loop_def assms for_each.simps
  by (intro blames_intros blames_test_setup blames_average blames_append_line)

lemma epoch_body_Inr_sz:
  assumes "epoch_body fw opt sz epoch best w = (Inr b, w')"
    "epoch mod TRAINING_VAL_AFTER_EVERY opt = 0"
  shows "sz \<noteq> 0"
proof -
  from assms(1) obtain w1 r where
    1: "py_mod epoch (TRAINING_VAL_AFTER_EVERY opt) w1 = (Inr r, w1)"
    and 2: "(if r = 0 then validate fw opt sz epoch best else ret best) w1 = (Inr b, w')"
    unfolding epoch_body_def
    by (auto simp: andthen_Inr_iff py_mod_def ret_Inr_iff raise_Inr_iff split: if_splits)
  from 1 assms(2) have "r = 0"
    by (auto simp: py_mod_def ret_Inr_iff raise_Inr_iff split: if_splits)
  with 2 have "validate fw opt sz epoch best w1 = (Inr b, w')" by simp
  from validate_Inr[OF this] obtain totals avg where
    "average fw totals sz w1 = (Inr avg, w1)" by blast
  from average_Inr[OF this] show ?thesis by simp
qed

lemma epochs_Inr_sz:
  assumes "epochs fw opt sz es best w = (Inr b, w')"
    "epoch \<in> set es" "epoch mod TRAINING_VAL_AFTER_EVERY opt = 0"
  shows "sz \<noteq> 0"
  using assms
proof (induction es arbitrary: best w)
  case Nil
  then show ?case by simp
next
  case (Cons e es)
  from Cons.prems(1) obtain b1 w1 where
    1: "epoch_body fw opt sz e best w = (Inr b1, w1)"
    and 2: "epochs fw opt sz es b1 w1 = (Inr b, w')"
    by (auto simp: andthen_Inr_iff)
  show ?case
  proof (cases "epoch = e")
    case True
    with 1 Cons.prems(3) show ?thesis by (auto dest: epoch_body_Inr_sz)
  next
    case False
    with Cons.prems(2) have "epoch \<in> set es" by simp
    from Cons.IH[OF 2 this Cons.prems(3)] show ?thesis .
  qed
qed

lemma train_Inr_nonempty:
  assumes "train fw opt w = (Inr r, w')" "1 \<le> epoch" "epoch \<le> OPTIM_NUM_EPOCHS opt"
    "epoch mod TRAINING_VAL_AFTER_EVERY opt = 0"
  shows "fw_test_batches fw \<noteq> []"
proof -
  from assms(1) obtain w1 b w2 where
    "epochs fw opt (int (length (fw_test_batches fw))) [1 .. OPTIM_NUM_EPOCHS opt] (PyInt 0, 1) w1 = (Inr b, w2)"
    unfolding train_def by (auto simp: andthen_Inr_iff)
  from epochs_Inr_sz[OF this, of epoch] assms(2,3,4) show ?thesis by auto
qed

lemma ex_fw_empty_simps:
  "fw_test_batches ex_fw_empty = []"
  "fw_raises ex_fw_empty = (\<lambda>_ _. None)"
  by (simp_all add: ex_fw_empty_def ex_fw_def)

lemma train_batch_Inr:
  assumes "train_batch fw b w = (Inr u, w')" "training w"
  shows "trace w' = trace w @ train_steps b (fst (fw_forward fw True True (fw_zero_grad fw (learner w)) (inp b))) \<and>
         training w'"
  using assms
  by (auto simp: train_batch_def Inr_iffs train_steps_def upd_learner_def train_loss_def)

lemma train_batch_prefix:
  assumes "train_batch fw b w = (r, w')" "training w"
  shows "\<exists>k. trace w' = trace w @
           take k (train_steps b (fst (fw_forward fw True True (fw_zero_grad fw (learner w)) (inp b))))"
proof -
  let ?steps = "train_steps b (fst (fw_forward fw True True (fw_zero_grad fw (learner w)) (inp b)))"
  have "trace w' = trace w @ take 1 ?steps \<or> trace w' = trace w @ take 2 ?steps \<or>
        trace w' = trace w @ take 3 ?steps \<or> trace w' = trace w @ take 4 ?steps \<or>
        trace w' = trace w @ take 5 ?steps \<or> trace w' = trace w @ take 6 ?steps \<or>
        trace w' = trace w @ take 7 ?steps \<or> trace w' = trace w @ take 8 ?steps"
    using assms
    by (auto simp: train_batch_def run_defs train_steps_def train_loss_def
             split: option.splits prod.splits)
  then show ?thesis by blast
qed

lemma train_loop_Inr:
  assumes "for_each fw TrainLoader bs (\<lambda>b _. train_batch fw b) () w = (Inr u, w')" "training w"
  shows "\<exists>rs. length rs = length bs \<and> trace w' = trace w @ training_events bs rs \<and> training w'"
  using assms
proof (induction bs arbitrary: w)
  case Nil
  then show ?case by (auto simp: Inr_iffs training_events_def)
next
  case (Cons b bs)
  from Cons.prems obtain w1 w2 where
    1: "call fw (LoaderNext TrainLoader) w = (Inr (), w1)"
    and 2: "train_batch fw b w1 = (Inr (), w2)"
    and 3: "for_each fw TrainLoader bs (\<lambda>b _. train_batch fw b) () w2 = (Inr u, w')"
    by (auto simp: andthen_Inr_iff)
  from 1 have w1: "w1 = w\<lparr>trace := trace w @ [LoaderNext TrainLoader]\<rparr>" by (auto simp: Inr_iffs)
  with Cons.prems(2) have tr1: "training w1" by simp
  from train_batch_Inr[OF 2 tr1] obtain r where
    t2: "trace w2 = trace w1 @ train_steps b r" and tr2: "training w2" by blast
  from Cons.IH[OF 3 tr2] obtain rs where
    t3: "length rs = length bs" "trace w' = trace w2 @ training_events bs rs" "training w'" by blast
  have "trace w' = trace w @ training_events (b # bs) (r # rs)"
    using w1 t2 t3 by (simp add: training_events_def)
  with t3 show ?case by (intro exI[of _ "r # rs"]) simp
qed

lemmas emits_intros =
  emits_andthen emits_call emits_effect emits_forward emits_ret emits_raise emits_for_each
  emits_py_truediv emits_py_mod emits_first_name emits_if

lemma emitsD:
  assumes "emits P m" "m w = (r, w')"
  shows "\<exists>es. trace w' = trace w @ es \<and> list_all P es"
  using assms unfolding emits_def by (metis snd_conv)

lemma emits_average: "emits P (average fw acc n)"
  unfolding average_def by (intro emits_intros)

lemma emits_keep_best: "emits (validate_event fw opt epoch) (keep_best fw opt epoch avg best)"
proof (cases "py_gt fw (psnr avg) (fst best)")
  case True
  have "emits (validate_event fw opt epoch) (\<lambda>w. andthen
              (call fw (SaveCheckpoint [(''state_dict'', StateDictOf (learner w))] epoch
                 (MODEL_SESSION opt) (TRAINING_SAVE_DIR opt)))
              (\<lambda>_. ret (PyFloat (psnr avg), epoch)) w)"
    by (rule emits_world) (intro emits_intros, simp add: validate_event_def)
  with True show ?thesis by (simp add: keep_best_def)
next
  case False
  then show ?thesis by (simp add: keep_best_def emits_ret)
qed

lemma emits_report:
  "emits (validate_event fw opt epoch) (report fw opt (train_log_stats fw epoch avg bp be))"
  by (auto simp: report_def append_line_def validate_event_def log_path_def intro!: emits_intros)
     blast+

lemma emits_validate: "emits (validate_event fw opt epoch) (validate fw opt sz epoch best)"
  unfolding validate_def val_batch_def measure_batch_def
  by (intro emits_intros emits_average emits_keep_best emits_report)
     (auto simp: validate_event_def)













lemma epoch_body_Inr:
  assumes "epoch_body fw opt sz epoch best w = (Inr best', w')"
  shows "\<exists>rs vs. length rs = length (fw_train_batches fw epoch) \<and>
     trace w' = trace w @ [ModelTrain, IterStart TrainLoader (\<not> fw_is_local_main_process fw)] @
        training_events (fw_train_batches fw epoch) rs @ [SchedulerStep] @ vs \<and>
     list_all (validate_event fw opt epoch) vs \<and>
     TRAINING_VAL_AFTER_EVERY opt \<noteq> 0 \<and>
     (epoch mod TRAINING_VAL_AFTER_EVERY opt \<noteq> 0 \<longrightarrow> vs = [] \<and> best' = best)"
proof -
  from assms obtain w1 w2 w3 w4 r where
    1: "effect fw ModelTrain (\<lambda>w. w\<lparr>training := True\<rparr>) w = (Inr (), w1)"
    and 2: "call fw (IterStart TrainLoader (\<not> fw_is_local_main_process fw)) w1 = (Inr (), w2)"
    and 3: "for_each fw TrainLoader (fw_train_batches fw epoch) (\<lambda>b _. train_batch fw b) () w2 = (Inr (), w3)"
    and 4: "effect fw SchedulerStep (upd_learner (fw_scheduler_step fw)) w3 = (Inr (), w4)"
    and 5: "py_mod epoch (TRAINING_VAL_AFTER_EVERY opt) w4 = (Inr r, w4)"
    and 6: "(if r = 0 then validate fw opt sz epoch best else ret best) w4 = (Inr best', w')"
    unfolding epoch_body_def
    by (auto simp: andthen_Inr_iff py_mod_def ret_Inr_iff raise_Inr_iff split: if_splits)
  from 1 2 have t2: "trace w2 = trace w @ [ModelTrain, IterStart TrainLoader (\<not> fw_is_local_main_process fw)]"
    and tr2: "training w2"
    by (auto simp: Inr_iffs)
  from train_loop_Inr[OF 3 tr2] obtain rs where
    t3: "length rs = length (fw_train_batches fw epoch)"
        "trace w3 = trace w2 @ training_events (fw_train_batches fw epoch) rs" by blast
  from 4 have t4: "trace w4 = trace w3 @ [SchedulerStep]" by (auto simp: Inr_iffs upd_learner_def)
  from 5 have v: "TRAINING_VAL_AFTER_EVERY opt \<noteq> 0" and r: "r = epoch mod TRAINING_VAL_AFTER_EVERY opt"
    by (auto simp: py_mod_def ret_Inr_iff raise_Inr_iff split: if_splits)
  have "\<exists>vs. trace w' = trace w4 @ vs \<and> list_all (validate_event fw opt epoch) vs \<and>
          (r \<noteq> 0 \<longrightarrow> vs = [] \<and> best' = best)"
  proof (cases "r = 0")
    case True
    with 6 have "validate fw opt sz epoch best w4 = (Inr best', w')" by simp
    from emitsD[OF emits_validate this] True show ?thesis by blast
  next
    case False
    with 6 show ?thesis by (simp add: ret_Inr_iff)
  qed
  then obtain vs where "trace w' = trace w4 @ vs" "list_all (validate_event fw opt epoch) vs"
    "r \<noteq> 0 \<longrightarrow> vs = [] \<and> best' = best" by blast
  with t2 t3 t4 v r show ?thesis
    by (intro exI[of _ rs] exI[of _ vs]) simp
qed

lemma training_events_quiet:
  "SchedulerStep \<notin> set (training_events bs rs)" "ModelTrain \<notin> set (training_events bs rs)"
  by (auto simp: training_events_def train_steps_def)

lemma validate_event_quiet:
  assumes "list_all (validate_event fw opt epoch) vs"
  shows "SchedulerStep \<notin> set vs \<and> OptimizerStep \<notin> set vs \<and> ZeroGrad \<notin> set vs \<and>
         (\<forall>l. AccBackward l \<notin> set vs)"
  using assms by (auto simp: list_all_iff validate_event_def)

lemma ex_train_batch_result:
  "fst (train_batch ex_fw \<lparr>inp = 1, tar = 2, names = []\<rparr> (ex_world\<lparr>training := True\<rparr>)) = Inr ()"
  by (simp add: run_defs train_defs ex_fw_simps ex_world_def)

lemma ex_epoch_result:
  "fst (epoch_body ex_fw ex_opt 2 1 (PyInt 0, 1) ex_world) = Inr (PyFloat 14, 1)"
  by (simp add: run_defs train_defs ex_fw_simps ex_opt_def ex_world_def)


lemma logged_psnr_simps:
  "logged_psnr (xs @ ys) = logged_psnr xs @ logged_psnr ys"
  "logged_psnr (ev # es) =
     (case ev of AccLog d e \<Rightarrow> (case map_of d ''PSNR'' of Some p \<Rightarrow> [(e, p)] | None \<Rightarrow> [])
              | _ \<Rightarrow> []) @ logged_psnr es"
  "logged_psnr [] = []"
  by (simp_all add: logged_psnr_def)







lemma tripleI:
  assumes "\<And>w e w'. P w \<Longrightarrow> m w = (Inl e, w') \<Longrightarrow> E w'"
    "\<And>w a w'. P w \<Longrightarrow> m w = (Inr a, w') \<Longrightarrow> Q a w'"
  shows "triple P m Q E"
  unfolding triple_def
proof (intro allI impI)
  fix w assume p: "P w"
  show "case m w of (Inl e, w') \<Rightarrow> E w' | (Inr a, w') \<Rightarrow> Q a w'"
  proof (cases "m w")
    case (Pair r w1)
    show ?thesis
    proof (cases r)
      case (Inl e)
      with Pair assms(1)[OF p] show ?thesis by simp
    next
      case (Inr a)
      with Pair assms(2)[OF p] show ?thesis by simp
    qed
  qed
qed

lemma tripleD1:
  assumes "triple P m Q E" "P w" "m w = (Inl e, w')"
  shows "E w'"
  using assms(1)[unfolded triple_def, rule_format, OF assms(2)] assms(3) by simp

lemma tripleD2:
  assumes "triple P m Q E" "P w" "m w = (Inr a, w')"
  shows "Q a w'"
  using assms(1)[unfolded triple_def, rule_format, OF assms(2)] assms(3) by simp

lemma triple_ret: "(\<And>w. P w \<Longrightarrow> Q a w) \<Longrightarrow> triple P (ret a) Q E"
  by (rule tripleI) (simp_all add: ret_def)

lemma triple_raise: "(\<And>w. P w \<Longrightarrow> E w) \<Longrightarrow> triple P (raise e) Q E"
  by (rule tripleI) (simp_all add: raise_def)

lemma andthen_cases:
  assumes "andthen m f w = (r, w')"
  obtains (left) e where "m w = (Inl e, w')" "r = Inl e"
        | (right) a w1 where "m w = (Inr a, w1)" "f a w1 = (r, w')"
proof (cases "m w")
  case (Pair r1 w1)
  show ?thesis
  proof (cases r1)
    case (Inl e)
    with Pair assms have "m w = (Inl e, w')" "r = Inl e" by (simp_all add: andthen_def)
    then show ?thesis by (rule left)
  next
    case (Inr a)
    with Pair assms have "m w = (Inr a, w1)" "f a w1 = (r, w')" by (simp_all add: andthen_def)
    then show ?thesis by (rule right)
  qed
qed

lemma triple_andthen:
  assumes "triple P m Q E" "\<And>a. triple (Q a) (f a) R E"
  shows "triple P (andthen m f) R E"
proof (rule tripleI)
  fix w e w' assume p: "P w" and r: "andthen m f w = (Inl e, w')"
  from r show "E w'"
  proof (cases rule: andthen_cases)
    case (left e1)
    with assms(1) p show ?thesis by (auto dest: tripleD1)
  next
    case (right a w1)
    from tripleD2[OF assms(1) p right(1)] have "Q a w1" .
    from tripleD1[OF assms(2) this right(2)] show ?thesis .
  qed
next
  fix w b w' assume p: "P w" and r: "andthen m f w = (Inr b, w')"
  from r show "R b w'"
  proof (cases rule: andthen_cases)
    case (left e1)
    then show ?thesis by simp
  next
    case (right a w1)
    from tripleD2[OF assms(1) p right(1)] have "Q a w1" .
    from tripleD2[OF assms(2) this right(2)] show ?thesis .
  qed
qed

lemma triple_post:
  assumes "triple P m Q E" "\<And>a w. Q a w \<Longrightarrow> Q' a w"
  shows "triple P m Q' E"
proof (rule tripleI)
  fix w e w' assume "P w" "m w = (Inl e, w')"
  with assms(1) show "E w'" by (rule tripleD1)
next
  fix w a w' assume "P w" "m w = (Inr a, w')"
  with assms(1) have "Q a w'" by (rule tripleD2)
  then show "Q' a w'" by (rule assms(2))
qed

lemma triple_pre:
  assumes "triple P m Q E" "\<And>w. P' w \<Longrightarrow> P w"
  shows "triple P' m Q E"
proof (rule tripleI)
  fix w e w' assume "P' w" "m w = (Inl e, w')"
  with assms show "E w'" by (auto dest: tripleD1)
next
  fix w a w' assume "P' w" "m w = (Inr a, w')"
  with assms show "Q a w'" by (auto dest: tripleD2)
qed

lemma keeps_ret: "keeps P E (ret a)"
  by (simp add: keeps_def triple_ret)

lemma keeps_raise: "(\<And>w. P w \<Longrightarrow> E w) \<Longrightarrow> keeps P E (raise e)"
  by (simp add: keeps_def triple_raise)

lemma keeps_andthen: "keeps P E m \<Longrightarrow> (\<And>a. keeps P E (f a)) \<Longrightarrow> keeps P E (andthen m f)"
  unfolding keeps_def by (rule triple_andthen)

lemma keeps_if: "(c \<Longrightarrow> keeps P E a) \<Longrightarrow> (\<not> c \<Longrightarrow> keeps P E b) \<Longrightarrow> keeps P E (if c then a else b)"
  by simp

lemma keeps_world: "(\<And>v. keeps P E (m v)) \<Longrightarrow> keeps P E (\<lambda>w. m w w)"
  by (simp add: keeps_def triple_def)

lemma keeps_pure:
  assumes "\<And>w. snd (m w) = w" "\<And>w. P w \<Longrightarrow> E w"
  shows "keeps P E m"
  unfolding keeps_def
proof (rule tripleI)
  fix w e w' assume "P w" "m w = (Inl e, w')"
  with assms(1)[of w] assms(2)[of w] show "E w'" by simp
next
  fix w a w' assume "P w" "m w = (Inr a, w')"
  with assms(1)[of w] show "P w'" by simp
qed

lemma keeps_for_each:
  assumes "keeps P E (call fw (LoaderNext l))" "\<And>b acc. keeps P E (body b acc)"
  shows "keeps P E (for_each fw l bs body acc)"
proof (induction bs arbitrary: acc)
  case Nil
  show ?case unfolding for_each.simps by (intro keeps_andthen keeps_ret assms)
next
  case (Cons b bs)
  show ?case unfolding for_each.simps by (intro keeps_andthen assms Cons.IH)
qed

section \<open>The claims\<close>

text \<open>
  C6. Neither script handles an exception. Whatever the frameworks do: of the calls a run
  of \<^verbatim>\<open>train()\<close> or \<^verbatim>\<open>test()\<close> makes, a call that raises is the last call of the run,
  and the run ends with the exception that call raised.
\<close>

theorem exceptions_propagate_unhandled:
  "(\<exists>es. trace (snd (train fw opt w)) = trace w @ es \<and>
      (\<forall>k e. k < length es \<and> fw_raises fw (trace w @ take k es) (es ! k) = Some e \<longrightarrow>
         Suc k = length es \<and> fst (train fw opt w) = Inl e)) \<and>
   (\<exists>es. trace (snd (test fw opt w)) = trace w @ es \<and>
      (\<forall>k e. k < length es \<and> fw_raises fw (trace w @ take k es) (es ! k) = Some e \<longrightarrow>
         Suc k = length es \<and> fst (test fw opt w) = Inl e))"
  using propagates_train[of fw opt] propagates_test[of fw opt]
  unfolding propagates_def by blast

theorem exceptions_propagate_unhandled_witness:
  "fst (train ex_fw_failing ex_opt ex_world) = Inl (FrameworkError ''CUDA out of memory'') \<and>
   fst (test ex_fw_failing ex_opt ex_world) = Inl (FrameworkError ''disk full'')"
proof -
  from exceptions_propagate_unhandled[of ex_fw_failing ex_opt ex_world]
  obtain es1 es2 where
    1: "trace (snd (train ex_fw_failing ex_opt ex_world)) = trace ex_world @ es1"
       "\<And>k e. k < length es1 \<Longrightarrow> fw_raises ex_fw_failing (trace ex_world @ take k es1) (es1 ! k) = Some e \<Longrightarrow>
          fst (train ex_fw_failing ex_opt ex_world) = Inl e"
    and 2: "trace (snd (test ex_fw_failing ex_opt ex_world)) = trace ex_world @ es2"
       "\<And>k e. k < length es2 \<Longrightarrow> fw_raises ex_fw_failing (trace ex_world @ take k es2) (es2 ! k) = Some e \<Longrightarrow>
          fst (test ex_fw_failing ex_opt ex_world) = Inl e"
    by blast
  from 1(1) have es1: "es1 = trace (snd (train ex_fw_failing ex_opt ex_world))"
    by (simp add: ex_world_def)
  from 2(1) have es2: "es2 = trace (snd (test ex_fw_failing ex_opt ex_world))"
    by (simp add: ex_world_def)
  have "fst (train ex_fw_failing ex_opt ex_world) = Inl (FrameworkError ''CUDA out of memory'')"
    by (rule 1(2)[of 22]) (simp_all add: es1 ex_train_failing_trace ex_fw_failing_simps)
  moreover have "fst (test ex_fw_failing ex_opt ex_world) = Inl (FrameworkError ''disk full'')"
    by (rule 2(2)[of 15]) (simp_all add: es2 ex_test_failing_trace ex_fw_failing_simps)
  ultimately show ?thesis by simp
qed



text \<open>
  C4. A run of \<^verbatim>\<open>test()\<close> that completes has written exactly one image per sample of the
  evaluation loader, in the loader's order: the output of the model on that sample, at
  \<^verbatim>\<open>os.path.join(opt.TESTING.RESULT_DIR, name)\<close> for the sample's file name, which for a name
  that is not an absolute path is the result directory, a separator if needed, and the
  name. The same holds for each single sample the loop completes. The directory is
  created exactly when it is missing, so it exists after the first sample.
\<close>

theorem one_image_per_sample:
  "(test fw opt w = (Inr res, w') \<longrightarrow>
      (\<exists>es. trace w' = trace w @ es \<and>
         saved_images es = zip (restored fw (loaded_model fw opt) (fw_test_batches fw))
                               (map (result_path opt) (fw_test_batches fw)) \<and>
         length (saved_images es) = length (fw_test_batches fw) \<and>
         made_dirs es = (if TESTING_RESULT_DIR opt \<in> dirs w then [] else [TESTING_RESULT_DIR opt]) \<and>
         TESTING_RESULT_DIR opt \<in> dirs w')) \<and>
   (test_batch fw opt b acc v = (Inr acc', v') \<longrightarrow>
      (\<exists>es. trace v' = trace v @ es \<and>
         saved_images es =
           [(fst (fw_forward fw (training v) False (learner v) (inp b)), result_path opt b)] \<and>
         made_dirs es = (if TESTING_RESULT_DIR opt \<in> dirs v then [] else [TESTING_RESULT_DIR opt]) \<and>
         TESTING_RESULT_DIR opt \<in> dirs v')) \<and>
   (names b \<noteq> [] \<and> relative_name (hd (names b)) \<longrightarrow>
      (\<exists>sep. result_path opt b = TESTING_RESULT_DIR opt @ sep @ hd (names b) \<and>
             (sep = [] \<or> sep = ''/'')))"
  using test_images[of fw opt w res w'] test_batch_image[of fw opt b acc v acc' v']
    path_join_relative[of "hd (names b)" "TESTING_RESULT_DIR opt"]
  unfolding result_path_def by blast

text \<open>The concrete run writes \<^verbatim>\<open>result/a.png\<close> and \<^verbatim>\<open>result/b.png\<close>.\<close>

theorem one_image_per_sample_witness:
  "(\<exists>es. trace (snd (test ex_fw ex_opt ex_world)) = es \<and>
      saved_images es = zip (restored ex_fw (loaded_model ex_fw ex_opt) (fw_test_batches ex_fw))
                            (map (result_path ex_opt) (fw_test_batches ex_fw)) \<and>
      saved_images es = [(1003, ''result/a.png''), (1005, ''result/b.png'')] \<and>
      made_dirs es = [''result'']) \<and>
   result_path ex_opt \<lparr>inp = 3::nat, tar = 4, names = [''a.png'']\<rparr> = ''result'' @ ''/'' @ ''a.png''"
proof -
  have r: "test ex_fw ex_opt ex_world =
             (Inr \<lparr>psnr = 1004, ssim = 1 / 2, lpips = 1 / 4, uciqe = 2, uiqm = 3\<rparr>,
              snd (test ex_fw ex_opt ex_world))"
    by (simp add: prod_eq_iff ex_test_result)
  have n: "names \<lparr>inp = 3::nat, tar = 4, names = [''a.png'']\<rparr> \<noteq> [] \<and>
           relative_name (hd (names \<lparr>inp = 3::nat, tar = 4, names = [''a.png'']\<rparr>))"
    by (simp add: relative_name_def)
  from one_image_per_sample[of ex_fw ex_opt ex_world
      "\<lparr>psnr = 1004, ssim = 1 / 2, lpips = 1 / 4, uciqe = 2, uiqm = 3\<rparr>"
      "snd (test ex_fw ex_opt ex_world)" "\<lparr>inp = 3::nat, tar = 4, names = [''a.png'']\<rparr>"] r n
  have "\<exists>es. trace (snd (test ex_fw ex_opt ex_world)) = trace ex_world @ es \<and>
         saved_images es = zip (restored ex_fw (loaded_model ex_fw ex_opt) (fw_test_batches ex_fw))
                               (map (result_path ex_opt) (fw_test_batches ex_fw)) \<and>
         made_dirs es = (if TESTING_RESULT_DIR ex_opt \<in> dirs ex_world then [] else [TESTING_RESULT_DIR ex_opt])"
    and "\<exists>sep. result_path ex_opt \<lparr>inp = 3::nat, tar = 4, names = [''a.png'']\<rparr> =
           TESTING_RESULT_DIR ex_opt @ sep @ hd (names \<lparr>inp = 3::nat, tar = 4, names = [''a.png'']\<rparr>) \<and>
           (sep = [] \<or> sep = ''/'')"
    by blast+
  then show ?thesis
    using ex_test_saved
    by (auto simp: ex_world_def ex_opt_def result_path_def path_join_def)
qed

text \<open>
  C8. When the validation loader yields no batch, a validation pass of \<^verbatim>\<open>train()\<close> and a
  run of \<^verbatim>\<open>test()\<close> always end in an exception: the \<^verbatim>\<open>ZeroDivisionError\<close> of the first
  average \<^verbatim>\<open>psnr /= size\<close>, unless a framework call raised before. So a run of \<^verbatim>\<open>train()\<close>
  that completes with such a loader had no validation epoch.
\<close>

theorem empty_validation_set_divides_by_zero:
  assumes "fw_test_batches fw = []"
  shows "(\<exists>e. fst (validate fw opt (int (length (fw_test_batches fw))) epoch best w) = Inl e \<and>
            (e = ZeroDivisionError \<or> (\<exists>h ev. fw_raises fw h ev = Some e))) \<and>
         (\<exists>e. fst (test fw opt w) = Inl e \<and>
            (e = ZeroDivisionError \<or> (\<exists>h ev. fw_raises fw h ev = Some e))) \<and>
         (\<forall>r w' k. train fw opt w = (Inr r, w') \<and> 1 \<le> k \<and> k \<le> OPTIM_NUM_EPOCHS opt \<longrightarrow>
            k mod TRAINING_VAL_AFTER_EVERY opt \<noteq> 0)"
proof (intro conjI allI impI)
  show "\<exists>e. fst (validate fw opt (int (length (fw_test_batches fw))) epoch best w) = Inl e \<and>
            (e = ZeroDivisionError \<or> (\<exists>h ev. fw_raises fw h ev = Some e))"
    using always_fails_validate[OF assms, of opt epoch best]
      blames_validate[of fw opt "int (length (fw_test_batches fw))" epoch best]
    unfolding always_fails_def blames_def by metis
  show "\<exists>e. fst (test fw opt w) = Inl e \<and>
            (e = ZeroDivisionError \<or> (\<exists>h ev. fw_raises fw h ev = Some e))"
    using always_fails_test[OF assms, of opt] blames_test[OF assms, of opt]
    unfolding always_fails_def blames_def by metis
  fix r w' k
  assume "train fw opt w = (Inr r, w') \<and> 1 \<le> k \<and> k \<le> OPTIM_NUM_EPOCHS opt"
  then have "k mod TRAINING_VAL_AFTER_EVERY opt = 0 \<Longrightarrow> fw_test_batches fw \<noteq> []"
    using train_Inr_nonempty[of fw opt w r w' k] by simp
  with assms show "k mod TRAINING_VAL_AFTER_EVERY opt \<noteq> 0" by auto
qed

text \<open>With no framework failure and no batch, both end in \<^verbatim>\<open>ZeroDivisionError\<close>.\<close>

theorem empty_validation_set_divides_by_zero_witness:
  "fw_test_batches ex_fw_empty = [] \<and>
   fst (validate ex_fw_empty ex_opt 0 1 (PyInt 0, 1) ex_world) = Inl ZeroDivisionError \<and>
   fst (test ex_fw_empty ex_opt ex_world) = Inl ZeroDivisionError"
  using empty_validation_set_divides_by_zero[of ex_fw_empty ex_opt 1 "(PyInt 0, 1)" ex_world]
  by (simp add: ex_fw_empty_simps)

text \<open>
  C2. Every training batch runs, in this order: \<^verbatim>\<open>zero_grad\<close>, the forward pass, the three
  criterion calls, \<^verbatim>\<open>accelerator.backward\<close> of the loss SmoothL1 + 0.3 (1 - SSIM) + 0.7 LPIPS,
  and \<^verbatim>\<open>optimizer.step\<close> (after \<^verbatim>\<open>data[0].contiguous()\<close>); a batch cut short by an exception
  has run a prefix of these. An epoch that completes has run the batches of its loader
  one after the other, then \<^verbatim>\<open>scheduler.step\<close> once, and no scheduler or optimizer step
  in the validation pass that may follow.
\<close>

theorem training_steps_in_order:
  "(train_batch fw b w = (r, w') \<and> training w \<longrightarrow>
      (\<exists>k. trace w' = trace w @
         take k (train_steps b (fst (fw_forward fw True True (fw_zero_grad fw (learner w)) (inp b)))))) \<and>
   (train_batch fw b w = (Inr u, w') \<and> training w \<longrightarrow>
      trace w' = trace w @
         train_steps b (fst (fw_forward fw True True (fw_zero_grad fw (learner w)) (inp b)))) \<and>
   (epoch_body fw opt sz epoch best v = (Inr best', v') \<longrightarrow>
      (\<exists>rs vs. length rs = length (fw_train_batches fw epoch) \<and>
         trace v' = trace v @ [ModelTrain, IterStart TrainLoader (\<not> fw_is_local_main_process fw)] @
            training_events (fw_train_batches fw epoch) rs @ [SchedulerStep] @ vs \<and>
         SchedulerStep \<notin> set (training_events (fw_train_batches fw epoch) rs) \<and>
         SchedulerStep \<notin> set vs \<and> OptimizerStep \<notin> set vs \<and> ZeroGrad \<notin> set vs \<and>
         (\<forall>l. AccBackward l \<notin> set vs)))"
proof (intro conjI impI)
  assume "train_batch fw b w = (r, w') \<and> training w"
  then show "\<exists>k. trace w' = trace w @
         take k (train_steps b (fst (fw_forward fw True True (fw_zero_grad fw (learner w)) (inp b))))"
    using train_batch_prefix[of fw b w r w'] by simp
next
  assume "train_batch fw b w = (Inr u, w') \<and> training w"
  then show "trace w' = trace w @
         train_steps b (fst (fw_forward fw True True (fw_zero_grad fw (learner w)) (inp b)))"
    using train_batch_Inr[of fw b w u w'] by simp
next
  assume "epoch_body fw opt sz epoch best v = (Inr best', v')"
  from epoch_body_Inr[OF this] obtain rs vs where
    e: "length rs = length (fw_train_batches fw epoch)"
       "trace v' = trace v @ [ModelTrain, IterStart TrainLoader (\<not> fw_is_local_main_process fw)] @
          training_events (fw_train_batches fw epoch) rs @ [SchedulerStep] @ vs"
       "list_all (validate_event fw opt epoch) vs"
    by blast
  from validate_event_quiet[OF e(3)] e(1,2) training_events_quiet(1)
  show "\<exists>rs vs. length rs = length (fw_train_batches fw epoch) \<and>
         trace v' = trace v @ [ModelTrain, IterStart TrainLoader (\<not> fw_is_local_main_process fw)] @
            training_events (fw_train_batches fw epoch) rs @ [SchedulerStep] @ vs \<and>
         SchedulerStep \<notin> set (training_events (fw_train_batches fw epoch) rs) \<and>
         SchedulerStep \<notin> set vs \<and> OptimizerStep \<notin> set vs \<and> ZeroGrad \<notin> set vs \<and>
         (\<forall>l. AccBackward l \<notin> set vs)"
    by blast
qed

text \<open>One batch and one whole epoch of the concrete run.\<close>

theorem training_steps_in_order_witness:
  "trace (snd (train_batch ex_fw \<lparr>inp = 1, tar = 2, names = []\<rparr> (ex_world\<lparr>training := True\<rparr>))) =
     train_steps \<lparr>inp = 1, tar = 2, names = []\<rparr> 1 \<and>
   (\<exists>rs vs. length rs = 1 \<and>
      trace (snd (epoch_body ex_fw ex_opt 2 1 (PyInt 0, 1) ex_world)) =
        [ModelTrain, IterStart TrainLoader False] @
        training_events [\<lparr>inp = 1, tar = 2, names = []\<rparr>] rs @ [SchedulerStep] @ vs \<and>
      SchedulerStep \<notin> set vs \<and> OptimizerStep \<notin> set vs)"
proof -
  let ?b = "\<lparr>inp = 1::nat, tar = 2, names = []\<rparr>"
  let ?w = "ex_world\<lparr>training := True\<rparr>"
  have 1: "train_batch ex_fw ?b ?w = (Inr (), snd (train_batch ex_fw ?b ?w))"
    using ex_train_batch_result by (metis prod.collapse)
  have 2: "epoch_body ex_fw ex_opt 2 1 (PyInt 0, 1) ex_world =
             (Inr (PyFloat 14, 1), snd (epoch_body ex_fw ex_opt 2 1 (PyInt 0, 1) ex_world))"
    by (simp add: prod_eq_iff ex_epoch_result)
  from training_steps_in_order[of ex_fw ?b ?w "Inr ()" "snd (train_batch ex_fw ?b ?w)" "()"
      ex_opt 2 1 "(PyInt 0, 1)" ex_world "(PyFloat 14, 1)"
      "snd (epoch_body ex_fw ex_opt 2 1 (PyInt 0, 1) ex_world)"] 1 2
  show ?thesis
    by (simp add: ex_fw_simps ex_world_def) blast
qed



end
